theory Spec2Isabelle
  imports Complex_Main "HOL-Library.Word"
begin

section \<open>Engine arithmetic used by the tessellation code\<close>

text \<open>
  The sources compute on \<open>int32\<close> and \<open>float\<close>. A \<open>float\<close> is read here as the real
  number it denotes (NaN and the infinities are outside the model), an \<open>int32\<close> as an
  \<open>int\<close>; where a product can leave the 32-bit range the two's-complement wrap-around is
  written out with \<open>wrap32\<close>.
\<close>

definition wrap32 :: "int \<Rightarrow> int" where
  "wrap32 x = (x + 2147483648) mod 4294967296 - 2147483648"

text \<open>\<open>FMath::RoundToInt(float)\<close> is \<open>FloorToInt(F + 0.5f)\<close>, delivered as an \<open>int32\<close>.\<close>

definition RoundToInt :: "real \<Rightarrow> int" where
  "RoundToInt F = wrap32 \<lfloor>F + 1 / 2\<rfloor>"

text \<open>\<open>FMath::Clamp(X, Min, Max)\<close>.\<close>

definition Clamp :: "'a::linorder \<Rightarrow> 'a \<Rightarrow> 'a \<Rightarrow> 'a" where
  "Clamp X Lo Hi = (if X < Lo then Lo else if X < Hi then X else Hi)"

text \<open>Integer division of C++ truncates toward zero.\<close>

definition idiv :: "int \<Rightarrow> int \<Rightarrow> int" where
  "idiv a b = (if (a < 0) = (b < 0) then \<bar>a\<bar> div \<bar>b\<bar> else - (\<bar>a\<bar> div \<bar>b\<bar>))"

text \<open>\<open>FMath::DivideAndRoundUp(Dividend, Divisor)\<close> is \<open>(Dividend + Divisor - 1) / Divisor\<close>.\<close>

definition DivideAndRoundUp :: "int \<Rightarrow> int \<Rightarrow> int" where
  "DivideAndRoundUp Dividend Divisor = idiv (Dividend + Divisor - 1) Divisor"

section \<open>Single-precision arithmetic\<close>

text \<open>
  The target factor of the continuous LOD mode is an integer decided by a \<open>float\<close>
  computation. There every operation is rounded as IEEE single precision does: to the
  nearest number with a 24-bit significand, ties to the even significand, with gradual
  underflow below \<open>2\<^sup>-\<^sup>1\<^sup>2\<^sup>6\<close>. Overflow to infinity (magnitudes from \<open>2\<^sup>1\<^sup>2\<^sup>8\<close> on) and
  NaN are outside the model.
\<close>

definition RoundHalfEven :: "real \<Rightarrow> int" where
  "RoundHalfEven r =
     (let f = \<lfloor>r\<rfloor>; d = r - of_int f
      in if d < 1 / 2 then f else if 1 / 2 < d then f + 1 else if even f then f else f + 1)"

text \<open>
  The binary exponent of a magnitude \<open>a\<close>: the search runs from \<open>e\<close> downward for at most
  \<open>n\<close> steps and stops at the first power of two that does not exceed \<open>a\<close>.
\<close>

fun FloatExponent :: "nat \<Rightarrow> int \<Rightarrow> real \<Rightarrow> int" where
  "FloatExponent 0 e a = e"
| "FloatExponent (Suc n) e a = (if 2 powi e \<le> a then e else FloatExponent n (e - 1) a)"

text \<open>Rounding a real number to single precision; the exponent ranges over \<open>[-126, 127]\<close>.\<close>

definition Float32 :: "real \<Rightarrow> real" where
  "Float32 x =
     (let e = FloatExponent 253 127 \<bar>x\<bar>;
          ulp = 2 powi (e - 23)
      in ulp * of_int (RoundHalfEven (x / ulp)))"

definition FAdd :: "real \<Rightarrow> real \<Rightarrow> real" where
  "FAdd a b = Float32 (a + b)"

definition FSub :: "real \<Rightarrow> real \<Rightarrow> real" where
  "FSub a b = Float32 (a - b)"

definition FMul :: "real \<Rightarrow> real \<Rightarrow> real" where
  "FMul a b = Float32 (a * b)"

definition FDiv :: "real \<Rightarrow> real \<Rightarrow> real" where
  "FDiv a b = Float32 (a / b)"

text \<open>The conversion \<open>(float)n\<close> of an \<open>int32\<close>.\<close>

definition IntToFloat :: "int \<Rightarrow> real" where
  "IntToFloat n = Float32 (of_int n)"

text \<open>
  The conversion of a \<open>float\<close> with an integral value to \<open>int32\<close>; a value outside the
  \<open>int32\<close> range gives the smallest \<open>int32\<close>, as the conversion instruction does.
\<close>

definition FloatToInt :: "int \<Rightarrow> int" where
  "FloatToInt z = (if - 2147483648 \<le> z \<and> z < 2147483648 then z else - 2147483648)"

text \<open>\<open>FMath::RoundToInt(float)\<close> with its addition \<open>F + 0.5f\<close> in single precision.\<close>

definition RoundToIntF :: "real \<Rightarrow> int" where
  "RoundToIntF F = FloatToInt \<lfloor>FAdd F (1 / 2)\<rfloor>"

text \<open>\<open>FMath::Lerp(A, B, Alpha)\<close> is \<open>A + Alpha * (B - A)\<close>, here on \<open>float\<close>.\<close>

definition Lerp :: "real \<Rightarrow> real \<Rightarrow> real \<Rightarrow> real" where
  "Lerp A B Alpha = FAdd A (FMul Alpha (FSub B A))"

section \<open>The resolution calculator of the mesh builder\<close>

type_synonym FIntPoint = "int \<times> int"

definition ThreadGroupSize :: int where
  "ThreadGroupSize = 8"

definition MaxResolution :: int where
  "MaxResolution = 1024"

definition MaxSegments :: int where
  "MaxSegments = MaxResolution - 1"

text \<open>\<open>FGPUTessellationMeshBuilder::CalculateResolution\<close>.\<close>

definition CalculateResolution :: "real \<Rightarrow> FIntPoint" where
  "CalculateResolution TessellationFactor =
     (let DesiredSegments = max 1 (wrap32 (RoundToInt TessellationFactor * 4));
          DesiredSegments = Clamp DesiredSegments ThreadGroupSize MaxSegments;
          Segments = DivideAndRoundUp DesiredSegments ThreadGroupSize * ThreadGroupSize;
          Segments = Clamp Segments ThreadGroupSize MaxSegments;
          Resolution = min (Segments + 1) MaxResolution
      in (Resolution, Resolution))"

section \<open>Settings and enumerations of the component header\<close>

datatype EGPUTessellationLODMode =
  Disabled | DistanceBased | DistanceBasedDiscrete | DistanceBasedPatches | DensityTexture

text \<open>
  \<open>enum class EGPUTessellationPatchLevel : uint8\<close>. The code casts it to \<open>int32\<close> and
  back and has a \<open>default\<close> branch for values outside the six enumerators, so the
  enumeration is kept as its underlying byte.
\<close>

type_synonym EGPUTessellationPatchLevel = "8 word"

abbreviation Patch_4 :: EGPUTessellationPatchLevel where "Patch_4 \<equiv> 0"
abbreviation Patch_8 :: EGPUTessellationPatchLevel where "Patch_8 \<equiv> 1"
abbreviation Patch_16 :: EGPUTessellationPatchLevel where "Patch_16 \<equiv> 2"
abbreviation Patch_32 :: EGPUTessellationPatchLevel where "Patch_32 \<equiv> 3"
abbreviation Patch_64 :: EGPUTessellationPatchLevel where "Patch_64 \<equiv> 4"
abbreviation Patch_128 :: EGPUTessellationPatchLevel where "Patch_128 \<equiv> 5"

type_synonym FVector2f = "real \<times> real"
type_synonym FVector = "real \<times> real \<times> real"
type_synonym FIntVector4 = "int \<times> int \<times> int \<times> int"

text \<open>
  \<open>FGPUTessellationSettings\<close>, with the fields the modelled code reads or writes. Plane
  size, displacement, normal and texture fields only feed the GPU passes and the
  floating-point patch geometry, which are not part of the model.
\<close>

record FGPUTessellationSettings =
  TessellationFactor :: int
  LODMode :: EGPUTessellationLODMode
  DiscreteLODLevels :: "EGPUTessellationPatchLevel list"
  DiscreteLODDistances :: "real list"
  PatchCountX :: int
  PatchCountY :: int
  PatchLevels :: "EGPUTessellationPatchLevel list"
  PatchDistances :: "real list"
  bEnablePatchCulling :: bool
  MaxTessellationFactor :: int
  MinTessellationFactor :: int
  MinTessellationDistance :: real
  MaxTessellationDistance :: real
  LODTransitionSpeed :: real
  LODHysteresis :: int
  UVOffset :: FVector2f
  UVScale :: FVector2f

text \<open>The default member initialisers of the header.\<close>

definition DefaultSettings :: FGPUTessellationSettings where
  "DefaultSettings =
     \<lparr> TessellationFactor = 16,
       LODMode = Disabled,
       DiscreteLODLevels = [Patch_64, Patch_32, Patch_16, Patch_8],
       DiscreteLODDistances = [2000, 5000, 10000, 20000],
       PatchCountX = 4,
       PatchCountY = 4,
       PatchLevels = [Patch_64, Patch_32, Patch_16, Patch_8, Patch_4],
       PatchDistances = [2000, 5000, 10000, 20000, 40000],
       bEnablePatchCulling = True,
       MaxTessellationFactor = 64,
       MinTessellationFactor = 8,
       MinTessellationDistance = 1000,
       MaxTessellationDistance = 50000,
       LODTransitionSpeed = 2,
       LODHysteresis = 2,
       UVOffset = (0, 0),
       UVScale = (1, 1) \<rparr>"

section \<open>Per-patch LOD level\<close>

text \<open>\<open>FGPUTessellationMeshBuilder::ConvertPatchLevelToTessellation\<close>.\<close>

definition ConvertPatchLevelToTessellation :: "EGPUTessellationPatchLevel \<Rightarrow> int" where
  "ConvertPatchLevelToTessellation Level =
     (if Level = Patch_4 then 4
      else if Level = Patch_8 then 8
      else if Level = Patch_16 then 16
      else if Level = Patch_32 then 32
      else if Level = Patch_64 then 64
      else if Level = Patch_128 then 128
      else 16)"

text \<open>
  The threshold loop of \<open>CalculatePatchTessellationLevel\<close>: it walks \<open>PatchDistances\<close>
  from index \<open>i\<close> on and stops at the first threshold the distance does not exceed; the
  level of that index is taken only if \<open>PatchLevels\<close> has one.
\<close>

fun FindPatchLevel ::
  "real \<Rightarrow> real list \<Rightarrow> EGPUTessellationPatchLevel list \<Rightarrow> nat \<Rightarrow> int \<Rightarrow> int" where
  "FindPatchLevel DistanceToCamera [] Levels i TargetLevel = TargetLevel"
| "FindPatchLevel DistanceToCamera (d # Distances) Levels i TargetLevel =
     (if DistanceToCamera \<le> d
      then (if i < length Levels then uint (Levels ! i) else TargetLevel)
      else FindPatchLevel DistanceToCamera Distances Levels (Suc i) TargetLevel)"

text \<open>
  \<open>FGPUTessellationMeshBuilder::CalculatePatchTessellationLevel\<close>. The one-time logging of
  the configuration has no effect on the result and is left out.
\<close>

definition CalculatePatchTessellationLevel :: "real \<Rightarrow> FGPUTessellationSettings \<Rightarrow> int" where
  "CalculatePatchTessellationLevel DistanceToCamera Settings =
     (if length (PatchLevels Settings) = 0 then 16
      else if length (PatchDistances Settings) = 0
      then ConvertPatchLevelToTessellation (PatchLevels Settings ! 0)
      else
        let TargetLevel = uint (PatchLevels Settings ! 0);
            TargetLevel = FindPatchLevel DistanceToCamera (PatchDistances Settings)
                            (PatchLevels Settings) 0 TargetLevel;
            TargetLevel =
              (if DistanceToCamera > PatchDistances Settings ! (length (PatchDistances Settings) - 1)
               then
                 let LastIndex = min (int (length (PatchDistances Settings)))
                                     (int (length (PatchLevels Settings))) - 1
                 in if LastIndex \<ge> 0 \<and> LastIndex < int (length (PatchLevels Settings))
                    then uint (PatchLevels Settings ! nat LastIndex)
                    else TargetLevel
               else TargetLevel)
        in ConvertPatchLevelToTessellation (word_of_int TargetLevel))"

section \<open>Patch partitioning\<close>

text \<open>
  Modelled from the spec: the declaration of \<open>FGPUTessellationPatchInfo\<close> is in the mesh
  builder's header, which is not among the sources. The record has the fields the builder
  reads and writes (spec section 3: UV offset and size, grid coordinates, assigned level,
  resolution, visibility flag, four edge-collapse factors ordered west, east, south,
  north); world centre and bounds are floating-point geometry and left out.
\<close>

record FGPUTessellationPatchInfo =
  PatchOffset :: FVector2f
  PatchSize :: FVector2f
  PatchIndexX :: int
  PatchIndexY :: int
  TessellationLevel :: int
  ResolutionX :: int
  ResolutionY :: int
  bVisible :: bool
  EdgeCollapseFactors :: FIntVector4

text \<open>
  Modelled from the spec: the default-constructed patch record that \<open>SetNum\<close> puts into a
  fresh array. Every field is overwritten by \<open>CalculatePatchInfo\<close> and
  \<open>ComputePatchEdgeTransitions\<close> before it is read.
\<close>

definition DefaultPatchInfo :: FGPUTessellationPatchInfo where
  "DefaultPatchInfo =
     \<lparr> PatchOffset = (0, 0), PatchSize = (1, 1), PatchIndexX = 0, PatchIndexY = 0,
       TessellationLevel = 0, ResolutionX = 0, ResolutionY = 0, bVisible = True,
       EdgeCollapseFactors = (1, 1, 1, 1) \<rparr>"

text \<open>
  The body of the double loop of \<open>CalculatePatchInfo\<close> for the patch at column \<open>X\<close>, row
  \<open>Y\<close>. \<open>Distance\<close> stands for \<open>FVector::Dist(Patch.WorldCenter, CameraPosition)\<close> and
  \<open>ViewFrustum\<close> for the frustum pointer: \<open>None\<close> is \<open>nullptr\<close>, \<open>Some hit\<close> gives the
  result of \<open>IntersectBox\<close> on the patch bounds.
\<close>

definition CalculatePatch ::
  "FGPUTessellationSettings \<Rightarrow> real \<Rightarrow> bool option \<Rightarrow> int \<Rightarrow> int \<Rightarrow> nat \<Rightarrow> nat \<Rightarrow>
   FGPUTessellationPatchInfo \<Rightarrow> FGPUTessellationPatchInfo" where
  "CalculatePatch Settings Distance ViewFrustum CountX CountY X Y Patch =
     (let PatchUVSizeX = 1 / real_of_int CountX;
          PatchUVSizeY = 1 / real_of_int CountY;
          Level = CalculatePatchTessellationLevel Distance Settings;
          PatchResolution = CalculateResolution (real_of_int Level)
      in Patch\<lparr> PatchOffset := (real X * PatchUVSizeX, real Y * PatchUVSizeY),
                PatchSize := (PatchUVSizeX, PatchUVSizeY),
                PatchIndexX := int X,
                PatchIndexY := int Y,
                TessellationLevel := Level,
                ResolutionX := fst PatchResolution,
                ResolutionY := snd PatchResolution,
                bVisible := (case ViewFrustum of
                               None \<Rightarrow> True
                             | Some hit \<Rightarrow> if bEnablePatchCulling Settings then hit else True) \<rparr>)"

text \<open>
  \<open>FGPUTessellationMeshBuilder::CalculatePatchInfo\<close>. \<open>PatchDistance\<close> gives, for a patch
  index, the camera distance of that patch's world centre, and \<open>ViewFrustum\<close> the frustum
  test per patch index.
\<close>

definition CalculatePatchInfo ::
  "FGPUTessellationSettings \<Rightarrow> (nat \<Rightarrow> real) \<Rightarrow> (nat \<Rightarrow> bool) option \<Rightarrow> int \<Rightarrow> int \<Rightarrow>
   FGPUTessellationPatchInfo list" where
  "CalculatePatchInfo Settings PatchDistance ViewFrustum CountX CountY =
     (let TotalPatches = CountX * CountY;
          OutPatchInfo = replicate (nat TotalPatches) DefaultPatchInfo
      in fold (\<lambda>Y. fold (\<lambda>X Out.
                 let PatchIndex = Y * nat CountX + X
                 in Out[PatchIndex :=
                      CalculatePatch Settings (PatchDistance PatchIndex)
                        (map_option (\<lambda>hit. hit PatchIndex) ViewFrustum)
                        CountX CountY X Y (Out ! PatchIndex)])
               [0..<nat CountX])
           [0..<nat CountY] OutPatchInfo)"

text \<open>The \<open>GetPatch\<close> lambda of \<open>ComputePatchEdgeTransitions\<close>.\<close>

definition GetPatch ::
  "int \<Rightarrow> int \<Rightarrow> FGPUTessellationPatchInfo list \<Rightarrow> int \<Rightarrow> int \<Rightarrow>
   FGPUTessellationPatchInfo option" where
  "GetPatch CountX CountY PatchInfo X Y =
     (if X < 0 \<or> X \<ge> CountX \<or> Y < 0 \<or> Y \<ge> CountY then None
      else Some (PatchInfo ! nat (Y * CountX + X)))"

text \<open>The \<open>ComputeFactor\<close> lambda of \<open>ComputePatchEdgeTransitions\<close>.\<close>

definition ComputeFactor ::
  "FGPUTessellationPatchInfo \<Rightarrow> FGPUTessellationPatchInfo option \<Rightarrow> bool \<Rightarrow> int" where
  "ComputeFactor Patch Neighbor bVerticalEdge =
     (case Neighbor of
        None \<Rightarrow> 1
      | Some N \<Rightarrow>
          if ResolutionX Patch \<le> 0 \<or> ResolutionY Patch \<le> 0 \<or>
             ResolutionX N \<le> 0 \<or> ResolutionY N \<le> 0 then 1
          else if TessellationLevel N \<ge> TessellationLevel Patch then 1
          else
            let MySegments = (if bVerticalEdge then max 1 (ResolutionY Patch - 1)
                              else max 1 (ResolutionX Patch - 1));
                NeighborSegments = (if bVerticalEdge then max 1 (ResolutionY N - 1)
                                    else max 1 (ResolutionX N - 1))
            in if NeighborSegments \<le> 0 \<or> MySegments \<le> NeighborSegments then 1
               else
                 let Factor = max 1 (idiv MySegments NeighborSegments)
                 in Clamp Factor 1 64)"

text \<open>
  One iteration of the double loop of \<open>ComputePatchEdgeTransitions\<close>: the factors of the
  patch at \<open>(X, Y)\<close> are reset and then assigned one by one, each from the array as it is
  at that moment.
\<close>

definition EdgeTransitionStep ::
  "int \<Rightarrow> int \<Rightarrow> nat \<Rightarrow> nat \<Rightarrow> FGPUTessellationPatchInfo list \<Rightarrow>
   FGPUTessellationPatchInfo list" where
  "EdgeTransitionStep CountX CountY X Y PatchInfo =
     (let i = Y * nat CountX + X;
          P0 = PatchInfo[i := (PatchInfo ! i)\<lparr>EdgeCollapseFactors := (1, 1, 1, 1)\<rparr>];
          West = ComputeFactor (P0 ! i) (GetPatch CountX CountY P0 (int X - 1) (int Y)) True;
          P1 = P0[i := (P0 ! i)\<lparr>EdgeCollapseFactors :=
                   (case EdgeCollapseFactors (P0 ! i) of (a, b, c, d) \<Rightarrow> (West, b, c, d))\<rparr>];
          East = ComputeFactor (P1 ! i) (GetPatch CountX CountY P1 (int X + 1) (int Y)) True;
          P2 = P1[i := (P1 ! i)\<lparr>EdgeCollapseFactors :=
                   (case EdgeCollapseFactors (P1 ! i) of (a, b, c, d) \<Rightarrow> (a, East, c, d))\<rparr>];
          South = ComputeFactor (P2 ! i) (GetPatch CountX CountY P2 (int X) (int Y - 1)) False;
          P3 = P2[i := (P2 ! i)\<lparr>EdgeCollapseFactors :=
                   (case EdgeCollapseFactors (P2 ! i) of (a, b, c, d) \<Rightarrow> (a, b, South, d))\<rparr>];
          North = ComputeFactor (P3 ! i) (GetPatch CountX CountY P3 (int X) (int Y + 1)) False
      in P3[i := (P3 ! i)\<lparr>EdgeCollapseFactors :=
                   (case EdgeCollapseFactors (P3 ! i) of (a, b, c, d) \<Rightarrow> (a, b, c, North))\<rparr>])"

text \<open>\<open>FGPUTessellationMeshBuilder::ComputePatchEdgeTransitions\<close>.\<close>

definition ComputePatchEdgeTransitions ::
  "int \<Rightarrow> int \<Rightarrow> FGPUTessellationPatchInfo list \<Rightarrow> FGPUTessellationPatchInfo list" where
  "ComputePatchEdgeTransitions CountX CountY PatchInfo =
     (let ExpectedCount = CountX * CountY
      in if CountX \<le> 0 \<or> CountY \<le> 0 \<or> int (length PatchInfo) \<noteq> ExpectedCount then PatchInfo
         else fold (\<lambda>Y. fold (\<lambda>X. EdgeTransitionStep CountX CountY X Y) [0..<nat CountX])
                [0..<nat CountY] PatchInfo)"

text \<open>The four edges of a patch and the component of the factor vector each one owns.\<close>

datatype Edge = West | East | South | North

fun EdgeFactor :: "Edge \<Rightarrow> FIntVector4 \<Rightarrow> int" where
  "EdgeFactor West (a, b, c, d) = a"
| "EdgeFactor East (a, b, c, d) = b"
| "EdgeFactor South (a, b, c, d) = c"
| "EdgeFactor North (a, b, c, d) = d"

fun NeighborX :: "Edge \<Rightarrow> int \<Rightarrow> int" where
  "NeighborX West X = X - 1"
| "NeighborX East X = X + 1"
| "NeighborX South X = X"
| "NeighborX North X = X"

fun NeighborY :: "Edge \<Rightarrow> int \<Rightarrow> int" where
  "NeighborY West Y = Y"
| "NeighborY East Y = Y"
| "NeighborY South Y = Y - 1"
| "NeighborY North Y = Y + 1"

fun IsVerticalEdge :: "Edge \<Rightarrow> bool" where
  "IsVerticalEdge West = True"
| "IsVerticalEdge East = True"
| "IsVerticalEdge South = False"
| "IsVerticalEdge North = False"

text \<open>
  The collapse factor in the words of the specification: toward a strictly coarser
  neighbour it is \<open>max(1, mySegments / neighborSegments)\<close> clamped to \<open>[1, 64]\<close>, otherwise
  1; segments are resolution minus one along the shared edge.
\<close>

definition SpecSegments :: "bool \<Rightarrow> FGPUTessellationPatchInfo \<Rightarrow> int" where
  "SpecSegments bVerticalEdge P = (if bVerticalEdge then ResolutionY P - 1 else ResolutionX P - 1)"

definition SpecCollapseFactor ::
  "bool \<Rightarrow> FGPUTessellationPatchInfo \<Rightarrow> FGPUTessellationPatchInfo \<Rightarrow> int" where
  "SpecCollapseFactor bVerticalEdge Patch Neighbor =
     (if TessellationLevel Neighbor < TessellationLevel Patch
      then min 64 (max 1 (max 1 (SpecSegments bVerticalEdge Patch div SpecSegments bVerticalEdge Neighbor)))
      else 1)"

text \<open>
  The ordered-threshold lookup in the words of the specification, over the list of
  (threshold, level) pairs: the first threshold the distance is within selects its level;
  beyond all thresholds the last level applies.
\<close>

fun SpecThresholdLookup :: "real \<Rightarrow> (real \<times> 'a) list \<Rightarrow> 'a \<Rightarrow> 'a" where
  "SpecThresholdLookup D [] fallback = fallback"
| "SpecThresholdLookup D ((d, l) # rest) fallback =
     (if D \<le> d then l else SpecThresholdLookup D rest l)"

section \<open>Patch generation\<close>

text \<open>
  Modelled from the spec: \<open>FGPUTessellationBuffers\<close> with its \<open>Reset\<close> and \<open>IsValid\<close> is
  declared in the mesh builder's header, which is not among the sources. A buffer set holds
  the four GPU buffers (here: whether the handle is non-null), the vertex and index counts
  and the resolution; it is valid iff all four buffers are present and both counts are
  positive (spec sections 3 and 4.5), and \<open>Reset\<close> releases the buffers and zeroes the
  counts.
\<close>

record FGPUTessellationBuffers =
  PositionBuffer :: bool
  NormalBuffer :: bool
  UVBuffer :: bool
  IndexBufferRHI :: bool
  VertexCount :: int
  IndexCount :: int
  BufferResolutionX :: int
  BufferResolutionY :: int

definition EmptyBuffers :: FGPUTessellationBuffers where
  "EmptyBuffers =
     \<lparr> PositionBuffer = False, NormalBuffer = False, UVBuffer = False, IndexBufferRHI = False,
       VertexCount = 0, IndexCount = 0, BufferResolutionX = 0, BufferResolutionY = 0 \<rparr>"

definition Reset :: "FGPUTessellationBuffers \<Rightarrow> FGPUTessellationBuffers" where
  "Reset B = EmptyBuffers"

definition IsValid :: "FGPUTessellationBuffers \<Rightarrow> bool" where
  "IsValid B =
     (PositionBuffer B \<and> NormalBuffer B \<and> UVBuffer B \<and> IndexBufferRHI B \<and>
      VertexCount B > 0 \<and> IndexCount B > 0)"

text \<open>The validation of the UV window in \<open>GenerateSinglePatch\<close>.\<close>

definition InvalidUVParameters :: "FGPUTessellationPatchInfo \<Rightarrow> bool" where
  "InvalidUVParameters P =
     (fst (PatchOffset P) < 0 \<or> snd (PatchOffset P) < 0 \<or>
      fst (PatchOffset P) > 1 \<or> snd (PatchOffset P) > 1 \<or>
      fst (PatchSize P) \<le> 0 \<or> snd (PatchSize P) \<le> 0 \<or>
      fst (PatchSize P) > 1 \<or> snd (PatchSize P) > 1)"

text \<open>
  \<open>FGPUTessellationMeshBuilder::GenerateSinglePatch\<close>. The four compute dispatches fill the
  buffers on the GPU; the model keeps what the function leaves in the caller's buffer set:
  after a failed validation the reset set, otherwise the counts, the resolution and the four
  buffers, which the pass scheduled at the end extracts from the pooled buffers.
\<close>

definition GenerateSinglePatch ::
  "FGPUTessellationPatchInfo \<Rightarrow> FGPUTessellationBuffers \<Rightarrow> FGPUTessellationBuffers" where
  "GenerateSinglePatch PatchInfo OutPatchBuffers =
     (let Level = TessellationLevel PatchInfo
      in if Level \<le> 0 then Reset OutPatchBuffers
         else
           let Resolution = CalculateResolution (real_of_int Level);
               VertexCount = fst Resolution * snd Resolution;
               IndexCount = (fst Resolution - 1) * (snd Resolution - 1) * 6
           in if fst Resolution < 2 \<or> snd Resolution < 2 then Reset OutPatchBuffers
              else if VertexCount \<le> 0 \<or> IndexCount \<le> 0 then Reset OutPatchBuffers
              else if InvalidUVParameters PatchInfo then Reset OutPatchBuffers
              else OutPatchBuffers\<lparr> VertexCount := VertexCount,
                                     IndexCount := IndexCount,
                                     BufferResolutionX := fst Resolution,
                                     BufferResolutionY := snd Resolution,
                                     PositionBuffer := True,
                                     NormalBuffer := True,
                                     UVBuffer := True,
                                     IndexBufferRHI := True \<rparr>)"

text \<open>
  The state of the generation loop of \<open>ExecutePatchTessellationPipeline\<close>: the buffer sets
  and the three counters of the summary it logs.
\<close>

record PatchLoopState =
  PatchBuffers :: "FGPUTessellationBuffers list"
  SkippedCulled :: int
  SkippedInvalidLOD :: int
  GeneratedSuccessfully :: int

text \<open>One iteration of the loop, for the patch with index \<open>PatchIndex\<close>.\<close>

definition GeneratePatchStep ::
  "FGPUTessellationPatchInfo list \<Rightarrow> nat \<Rightarrow> PatchLoopState \<Rightarrow> PatchLoopState" where
  "GeneratePatchStep PatchInfo PatchIndex st =
     (let Patch = PatchInfo ! PatchIndex
      in if \<not> bVisible Patch
         then st\<lparr> PatchBuffers := (PatchBuffers st)[PatchIndex := Reset (PatchBuffers st ! PatchIndex)],
                  SkippedCulled := SkippedCulled st + 1 \<rparr>
         else if TessellationLevel Patch \<le> 0
         then st\<lparr> PatchBuffers := (PatchBuffers st)[PatchIndex := Reset (PatchBuffers st ! PatchIndex)],
                  SkippedInvalidLOD := SkippedInvalidLOD st + 1 \<rparr>
         else st\<lparr> PatchBuffers := (PatchBuffers st)[PatchIndex :=
                                      GenerateSinglePatch Patch (PatchBuffers st ! PatchIndex)],
                  GeneratedSuccessfully := GeneratedSuccessfully st + 1 \<rparr>)"

definition GeneratePatches ::
  "FGPUTessellationPatchInfo list \<Rightarrow> nat \<Rightarrow> FGPUTessellationBuffers list \<Rightarrow> PatchLoopState" where
  "GeneratePatches PatchInfo TotalPatches Buffers =
     fold (GeneratePatchStep PatchInfo) [0..<TotalPatches]
       \<lparr> PatchBuffers = Buffers, SkippedCulled = 0, SkippedInvalidLOD = 0,
         GeneratedSuccessfully = 0 \<rparr>"

text \<open>\<open>TArray::SetNum\<close>: keep the first \<open>n\<close> elements, pad with default-constructed ones.\<close>

definition SetNum :: "nat \<Rightarrow> 'a \<Rightarrow> 'a list \<Rightarrow> 'a list" where
  "SetNum n dflt xs = take n xs @ replicate (n - length xs) dflt"

text \<open>
  Modelled from the spec: \<open>FGPUTessellationPatchBuffers\<close> is declared in the missing header;
  it holds one buffer set per patch, the patch records and the grid dimensions (spec
  section 3).
\<close>

record FGPUTessellationPatchBuffers =
  Buffers :: "FGPUTessellationBuffers list"
  PatchInfos :: "FGPUTessellationPatchInfo list"
  GridCountX :: int
  GridCountY :: int

datatype PipelineError = CheckFailed

text \<open>
  \<open>FGPUTessellationMeshBuilder::ExecutePatchTessellationPipeline\<close>. The \<open>check\<close> at its head
  stops the program when a patch count is not positive. The result pairs the filled patch
  buffers with the final loop state, whose counters are the logged summary.
\<close>

definition ExecutePatchTessellationPipeline ::
  "FGPUTessellationSettings \<Rightarrow> (nat \<Rightarrow> real) \<Rightarrow> (nat \<Rightarrow> bool) option \<Rightarrow> int \<Rightarrow> int \<Rightarrow>
   FGPUTessellationPatchBuffers \<Rightarrow> PipelineError + (FGPUTessellationPatchBuffers \<times> PatchLoopState)" where
  "ExecutePatchTessellationPipeline Settings PatchDistance ViewFrustum CountX CountY OutPatchBuffers =
     (if \<not> (CountX > 0 \<and> CountY > 0) then Inl CheckFailed
      else
        let PatchInfo = CalculatePatchInfo Settings PatchDistance ViewFrustum CountX CountY;
            PatchInfo = ComputePatchEdgeTransitions CountX CountY PatchInfo;
            TotalPatches = CountX * CountY;
            Resized = SetNum (nat TotalPatches) EmptyBuffers (Buffers OutPatchBuffers);
            st = GeneratePatches PatchInfo (nat TotalPatches) Resized
        in Inr (OutPatchBuffers\<lparr> Buffers := PatchBuffers st,
                                  PatchInfos := PatchInfo,
                                  GridCountX := CountX,
                                  GridCountY := CountY \<rparr>, st))"

text \<open>
  The per-patch part of \<open>FGPUTessellationSceneProxy::RenderPatches\<close>: a patch is passed over
  when it is culled or its buffer set is invalid.
\<close>

definition PatchIsDrawn :: "FGPUTessellationPatchInfo \<Rightarrow> FGPUTessellationBuffers \<Rightarrow> bool" where
  "PatchIsDrawn PatchInfo PatchBuffer =
     (if \<not> bVisible PatchInfo then False
      else if \<not> IsValid PatchBuffer then False
      else True)"

text \<open>
  A patch that the generation step gives up: an invalid level, a resolution below 2 by 2
  or a malformed UV window.
\<close>

definition PatchIsInvalid :: "FGPUTessellationPatchInfo \<Rightarrow> bool" where
  "PatchIsInvalid P =
     (TessellationLevel P \<le> 0 \<or>
      fst (CalculateResolution (real_of_int (TessellationLevel P))) < 2 \<or>
      snd (CalculateResolution (real_of_int (TessellationLevel P))) < 2 \<or>
      InvalidUVParameters P)"

section \<open>The LOD evaluator of the component\<close>

text \<open>
  The component state: the members of \<open>UGPUTessellationComponent\<close> that the LOD code
  touches. \<open>RenderStateDirty\<close> records that \<open>MarkRenderStateDirty\<close> was called,
  \<open>DynamicDataSent\<close> counts the patch updates handed to the scene proxy, and \<open>bInitialized\<close>
  is the function-local static latch of \<open>TickComponent\<close>. Factors and levels stay within
  a few hundred (targets are clamped to \<open>[1, 256]\<close> or taken from the six patch levels), so
  their differences are computed on \<open>int\<close> as they are.
\<close>

record UGPUTessellationComponent =
  TessellationSettings :: FGPUTessellationSettings
  bAutoUpdate :: bool
  CurrentLODLevel :: real
  LastAppliedTessFactor :: int
  LastCameraPosition :: FVector
  CurrentResolution :: FIntPoint
  LastPatchCountX :: int
  LastPatchCountY :: int
  SceneProxy :: bool
  RenderStateDirty :: bool
  DynamicDataSent :: nat
  bInitialized :: bool

text \<open>The constructor and the default member initialisers.\<close>

definition DefaultComponent :: UGPUTessellationComponent where
  "DefaultComponent =
     \<lparr> TessellationSettings = DefaultSettings,
       bAutoUpdate = True,
       CurrentLODLevel = 16,
       LastAppliedTessFactor = 16,
       LastCameraPosition = (0, 0, 0),
       CurrentResolution = (32, 32),
       LastPatchCountX = 1,
       LastPatchCountY = 1,
       SceneProxy = False,
       RenderStateDirty = False,
       DynamicDataSent = 0,
       bInitialized = False \<rparr>"

text \<open>
  What one tick observes of the world: the frame time, whether the component is in a
  world, the view point of the first player controller and of the editor viewport,
  the value \<open>CalculateDistanceToCamera\<close> returns for the camera found, and the largest
  absolute component of the component scale.
\<close>

record TickEnvironment =
  DeltaTime :: real
  World :: bool
  PlayerCamera :: "FVector option"
  EditorCamera :: "FVector option"
  Distance :: real
  MaxScale :: real

definition MarkRenderStateDirty :: "UGPUTessellationComponent \<Rightarrow> UGPUTessellationComponent" where
  "MarkRenderStateDirty c = c\<lparr>RenderStateDirty := True\<rparr>"

text \<open>
  \<open>UGPUTessellationComponent::CalculateGridResolution\<close>; it returns the resolution and
  caches it in the mutable member \<open>CurrentResolution\<close>.
\<close>

definition CalculateGridResolution ::
  "UGPUTessellationComponent \<Rightarrow> FIntPoint \<times> UGPUTessellationComponent" where
  "CalculateGridResolution c =
     (let EffectiveTessellationFactor =
            (if LODMode (TessellationSettings c) \<noteq> Disabled then LastAppliedTessFactor c
             else TessellationFactor (TessellationSettings c));
          Resolution = wrap32 (EffectiveTessellationFactor * 4);
          Resolution = Clamp Resolution 4 1024;
          Resolution = DivideAndRoundUp Resolution 8 * 8
      in ((Resolution, Resolution), c\<lparr>CurrentResolution := (Resolution, Resolution)\<rparr>))"

text \<open>
  \<open>UGPUTessellationComponent::CalculateLODFactorScaled\<close>. The three arguments are \<open>float\<close>
  values; every operation of the body is a single-precision operation.
\<close>

definition CalculateLODFactorScaled ::
  "UGPUTessellationComponent \<Rightarrow> real \<Rightarrow> real \<Rightarrow> real \<Rightarrow> int" where
  "CalculateLODFactorScaled c Dist ScaledMinDistance ScaledMaxDistance =
     (let MinDist = ScaledMinDistance;
          MaxDist = (if MinDist \<ge> ScaledMaxDistance then FAdd MinDist 1000 else ScaledMaxDistance);
          t = (if Dist \<le> MinDist then 0
               else if Dist \<ge> MaxDist then 1
               else let t = FDiv (FSub Dist MinDist) (FSub MaxDist MinDist)
                    in FMul (FMul t t) (FSub 3 (FMul 2 t)));
          LerpedFactor = Lerp (IntToFloat (MaxTessellationFactor (TessellationSettings c)))
                              (IntToFloat (MinTessellationFactor (TessellationSettings c))) t
      in Clamp (RoundToIntF LerpedFactor) 1 256)"

text \<open>
  Modelled from the spec: \<open>FMath::FInterpTo\<close> belongs to the engine. It smooths the current
  value toward the target using the frame time and the configured speed (spec section
  4.2, step 5): the value moves by the fraction \<open>Clamp(DeltaTime * InterpSpeed, 0, 1)\<close> of
  the remaining distance, and snaps when the speed is not positive or the distance is
  negligible.
\<close>

definition FInterpTo :: "real \<Rightarrow> real \<Rightarrow> real \<Rightarrow> real \<Rightarrow> real" where
  "FInterpTo Current Target DT InterpSpeed =
     (if InterpSpeed \<le> 0 then Target
      else
        let D = Target - Current
        in if D * D < 1 / 100000000 then Target
           else Current + D * Clamp (DT * InterpSpeed) 0 1)"

text \<open>The camera search shared by the distance-based updates.\<close>

definition FindCamera :: "TickEnvironment \<Rightarrow> FVector option" where
  "FindCamera env =
     (case PlayerCamera env of Some ViewLocation \<Rightarrow> Some ViewLocation | None \<Rightarrow> EditorCamera env)"

text \<open>\<open>UGPUTessellationComponent::UpdateDistanceBasedLOD\<close>; the throttled logging is left out.\<close>

definition UpdateDistanceBasedLOD ::
  "TickEnvironment \<Rightarrow> UGPUTessellationComponent \<Rightarrow> UGPUTessellationComponent" where
  "UpdateDistanceBasedLOD env c =
     (if \<not> World env then c
      else case FindCamera env of
        None \<Rightarrow> c
      | Some CameraPos \<Rightarrow>
          let ScaledMinDistance = MinTessellationDistance (TessellationSettings c) * MaxScale env;
              ScaledMaxDistance = MaxTessellationDistance (TessellationSettings c) * MaxScale env;
              c = c\<lparr>LastCameraPosition := CameraPos\<rparr>;
              TargetTessFactor =
                CalculateLODFactorScaled c (Distance env) ScaledMinDistance ScaledMaxDistance;
              c = (if LODTransitionSpeed (TessellationSettings c) > 0
                   then c\<lparr>CurrentLODLevel :=
                            FInterpTo (CurrentLODLevel c) (real_of_int TargetTessFactor)
                              (DeltaTime env) (LODTransitionSpeed (TessellationSettings c))\<rparr>
                   else c\<lparr>CurrentLODLevel := real_of_int TargetTessFactor\<rparr>);
              NewTessFactor = RoundToInt (CurrentLODLevel c)
          in if \<bar>NewTessFactor - LastAppliedTessFactor c\<bar> > LODHysteresis (TessellationSettings c)
             then MarkRenderStateDirty (c\<lparr>LastAppliedTessFactor := NewTessFactor\<rparr>)
             else c)"

text \<open>\<open>UGPUTessellationComponent::UpdateDensityBasedLOD\<close> falls back to the distance-based update.\<close>

definition UpdateDensityBasedLOD ::
  "TickEnvironment \<Rightarrow> UGPUTessellationComponent \<Rightarrow> UGPUTessellationComponent" where
  "UpdateDensityBasedLOD env c = UpdateDistanceBasedLOD env c"

text \<open>
  The threshold loop of \<open>UpdateDiscreteLOD\<close>, from index \<open>i\<close> on: beyond a threshold the
  next level is taken if there is one, within it the level of the threshold, which ends
  the loop.
\<close>

function DiscreteScan ::
  "real \<Rightarrow> real list \<Rightarrow> EGPUTessellationPatchLevel list \<Rightarrow> nat \<Rightarrow> int \<Rightarrow> int" where
  "DiscreteScan ScaledDistance Distances Levels i TargetTessFactor =
     (if i < length Distances \<and> i < length Levels
      then (if ScaledDistance > Distances ! i
            then DiscreteScan ScaledDistance Distances Levels (Suc i)
                   (if Suc i < length Levels then uint (Levels ! Suc i) else TargetTessFactor)
            else uint (Levels ! i))
      else TargetTessFactor)"
  by pat_completeness auto
termination
  by (relation "measure (\<lambda>(D, Ds, Ls, i, T). length Ds - i)") auto

text \<open>The target factor \<open>UpdateDiscreteLOD\<close> computes before it applies the hysteresis.\<close>

definition DiscreteTargetTessFactor :: "FGPUTessellationSettings \<Rightarrow> real \<Rightarrow> int" where
  "DiscreteTargetTessFactor Settings ScaledDistance =
     (let TargetTessFactor = 4;
          TargetTessFactor =
            (if length (DiscreteLODLevels Settings) > 0
             then DiscreteScan ScaledDistance (DiscreteLODDistances Settings)
                    (DiscreteLODLevels Settings) 0 (uint (DiscreteLODLevels Settings ! 0))
             else TargetTessFactor)
      in ConvertPatchLevelToTessellation (word_of_int TargetTessFactor))"

text \<open>\<open>UGPUTessellationComponent::UpdateDiscreteLOD\<close>.\<close>

definition UpdateDiscreteLOD ::
  "TickEnvironment \<Rightarrow> UGPUTessellationComponent \<Rightarrow> UGPUTessellationComponent" where
  "UpdateDiscreteLOD env c =
     (if \<not> World env then c
      else case FindCamera env of
        None \<Rightarrow> c
      | Some CameraPos \<Rightarrow>
          let ScaledDistance = Distance env / MaxScale env;
              TargetTessFactor = DiscreteTargetTessFactor (TessellationSettings c) ScaledDistance;
              Difference = \<bar>TargetTessFactor - LastAppliedTessFactor c\<bar>
          in if Difference \<ge> LODHysteresis (TessellationSettings c)
             then MarkRenderStateDirty
                    (c\<lparr> LastAppliedTessFactor := TargetTessFactor,
                        CurrentLODLevel := real_of_int TargetTessFactor \<rparr>)
             else c)"

text \<open>\<open>FVector::Dist\<close>.\<close>

definition Dist3 :: "FVector \<Rightarrow> FVector \<Rightarrow> real" where
  "Dist3 A B =
     (case A of (ax, ay, az) \<Rightarrow> case B of (bx, by, bz) \<Rightarrow>
        sqrt ((ax - bx) * (ax - bx) + (ay - by) * (ay - by) + (az - bz) * (az - bz)))"

text \<open>\<open>UGPUTessellationComponent::SendRenderDynamicData_Concurrent\<close>.\<close>

definition SendRenderDynamicData_Concurrent ::
  "UGPUTessellationComponent \<Rightarrow> UGPUTessellationComponent" where
  "SendRenderDynamicData_Concurrent c =
     (if SceneProxy c then c\<lparr>DynamicDataSent := Suc (DynamicDataSent c)\<rparr> else c)"

text \<open>\<open>UGPUTessellationComponent::UpdatePatchBasedLOD\<close>.\<close>

definition UpdatePatchBasedLOD ::
  "TickEnvironment \<Rightarrow> UGPUTessellationComponent \<Rightarrow> UGPUTessellationComponent" where
  "UpdatePatchBasedLOD env c =
     (case (case (if World env then PlayerCamera env else None) of
              Some ViewLocation \<Rightarrow> Some ViewLocation
            | None \<Rightarrow> EditorCamera env) of
        None \<Rightarrow> c
      | Some CameraPos \<Rightarrow>
          let CameraMovement = Dist3 CameraPos (LastCameraPosition c);
              UpdateThreshold = 100;
              ScaledThreshold = UpdateThreshold * MaxScale env
          in if LastPatchCountX c \<noteq> PatchCountX (TessellationSettings c) \<or>
                LastPatchCountY c \<noteq> PatchCountY (TessellationSettings c) \<or>
                CameraMovement > ScaledThreshold
             then SendRenderDynamicData_Concurrent
                    (c\<lparr> LastPatchCountX := PatchCountX (TessellationSettings c),
                        LastPatchCountY := PatchCountY (TessellationSettings c),
                        LastCameraPosition := CameraPos \<rparr>)
             else c)"

text \<open>\<open>UGPUTessellationComponent::TickComponent\<close>.\<close>

definition TickComponent ::
  "TickEnvironment \<Rightarrow> UGPUTessellationComponent \<Rightarrow> UGPUTessellationComponent" where
  "TickComponent env c =
     (if \<not> bAutoUpdate c then c
      else case LODMode (TessellationSettings c) of
        DistanceBased \<Rightarrow>
          UpdateDistanceBasedLOD env
            (if \<not> bInitialized c
             then c\<lparr> CurrentLODLevel := real_of_int (MaxTessellationFactor (TessellationSettings c)),
                     LastAppliedTessFactor := MaxTessellationFactor (TessellationSettings c),
                     bInitialized := True \<rparr>
             else c)
      | DistanceBasedDiscrete \<Rightarrow> UpdateDiscreteLOD env c
      | DistanceBasedPatches \<Rightarrow> UpdatePatchBasedLOD env c
      | DensityTexture \<Rightarrow> UpdateDensityBasedLOD env c
      | Disabled \<Rightarrow> c)"

text \<open>A run of ticks, one environment per frame.\<close>

definition RunTicks ::
  "TickEnvironment list \<Rightarrow> UGPUTessellationComponent \<Rightarrow> UGPUTessellationComponent" where
  "RunTicks envs c = fold TickComponent envs c"

text \<open>
  The continuous-mode target in the words of the specification: the interpolation
  parameter is 0 up to the scaled minimum, 1 from the scaled maximum on and the smoothstep
  \<open>3t\<^sup>2 - 2t\<^sup>3\<close> of the normalised distance between; the target level is the
  interpolation from the maximum to the minimum factor.
\<close>

definition SpecInterpolationParameter :: "real \<Rightarrow> real \<Rightarrow> real \<Rightarrow> real" where
  "SpecInterpolationParameter d scaledMin scaledMax =
     (if d \<le> scaledMin then 0
      else if d \<ge> scaledMax then 1
      else let t = (d - scaledMin) / (scaledMax - scaledMin)
           in 3 * t ^ 2 - 2 * t ^ 3)"

definition SpecTargetLevel :: "real \<Rightarrow> real \<Rightarrow> real \<Rightarrow> real" where
  "SpecTargetLevel maxFactor minFactor t = maxFactor + (minFactor - maxFactor) * t"

text \<open>
  The same in single precision: the upper threshold of the distance range is the scaled
  maximum, or the scaled minimum plus 1000 when the scaled minimum is not below the scaled
  maximum; the smoothstep is evaluated as \<open>t * t * (3 - 2 * t)\<close>, one rounding per
  operation.
\<close>

definition UpperThreshold :: "real \<Rightarrow> real \<Rightarrow> real" where
  "UpperThreshold scaledMin scaledMax =
     (if scaledMin \<ge> scaledMax then FAdd scaledMin 1000 else scaledMax)"

definition SmoothstepF :: "real \<Rightarrow> real" where
  "SmoothstepF t = FMul (FMul t t) (FSub 3 (FMul 2 t))"

text \<open>
  A single-precision number of magnitude at most \<open>2\<^sup>1\<^sup>2\<^sup>6\<close>: sums and differences of two
  such numbers do not overflow.
\<close>

definition InRange32 :: "real \<Rightarrow> bool" where
  "InRange32 x \<longleftrightarrow> Float32 x = x \<and> \<bar>x\<bar> \<le> 2 ^ 126"

text \<open>
  Repeated evaluation with an unchanged measurement: the same distance, scale and camera
  in every frame, only the frame time may differ.
\<close>

definition WithDeltaTime :: "TickEnvironment \<Rightarrow> real \<Rightarrow> TickEnvironment" where
  "WithDeltaTime env dt = env\<lparr>DeltaTime := dt\<rparr>"

definition RepeatDistanceBasedLOD ::
  "TickEnvironment \<Rightarrow> real list \<Rightarrow> UGPUTessellationComponent \<Rightarrow> UGPUTessellationComponent" where
  "RepeatDistanceBasedLOD env dts c = fold (\<lambda>dt. UpdateDistanceBasedLOD (WithDeltaTime env dt)) dts c"

definition RepeatDiscreteLOD ::
  "TickEnvironment \<Rightarrow> real list \<Rightarrow> UGPUTessellationComponent \<Rightarrow> UGPUTessellationComponent" where
  "RepeatDiscreteLOD env dts c = fold (\<lambda>dt. UpdateDiscreteLOD (WithDeltaTime env dt)) dts c"

text \<open>
  Two patch arrays agree on everything but the edge-collapse factors; this is what the
  edge pass preserves and all it reads.
\<close>

definition SameCore :: "FGPUTessellationPatchInfo list \<Rightarrow> FGPUTessellationPatchInfo list \<Rightarrow> bool" where
  "SameCore P Q = (length P = length Q \<and>
     (\<forall>j. (P ! j)\<lparr>EdgeCollapseFactors := (1, 1, 1, 1)\<rparr> = (Q ! j)\<lparr>EdgeCollapseFactors := (1, 1, 1, 1)\<rparr>))"

text \<open>
  The factor \<open>ComputeFactor\<close> yields for the patch at \<open>(X, Y)\<close> and the edge \<open>e\<close> when it
  reads the array \<open>P\<close>.
\<close>

definition StepFactor ::
  "int \<Rightarrow> int \<Rightarrow> FGPUTessellationPatchInfo list \<Rightarrow> nat \<Rightarrow> nat \<Rightarrow> Edge \<Rightarrow> int" where
  "StepFactor CountX CountY P X Y e =
     ComputeFactor (P ! (Y * nat CountX + X))
       (GetPatch CountX CountY P (NeighborX e (int X)) (NeighborY e (int Y))) (IsVerticalEdge e)"

text \<open>
  The patch configuration of scenario 5 of the specification, and a grid of two patches
  in a row, the west one at distance 1000 and the east one at distance 3000.
\<close>

definition ScenarioSettings :: FGPUTessellationSettings where
  "ScenarioSettings =
     DefaultSettings\<lparr>PatchDistances := [2000, 5000], PatchLevels := [Patch_64, Patch_16]\<rparr>"

definition TwoPatchDistances :: "nat \<Rightarrow> real" where
  "TwoPatchDistances i = (if i = 0 then 1000 else 3000)"

definition TwoPatchGrid :: "FGPUTessellationPatchInfo list" where
  "TwoPatchGrid =
     ComputePatchEdgeTransitions 2 1 (CalculatePatchInfo ScenarioSettings TwoPatchDistances None 2 1)"

text \<open>A patch record with the given level and the full UV window, and an empty patch buffer holder.\<close>

definition PatchWithLevel :: "int \<Rightarrow> FGPUTessellationPatchInfo" where
  "PatchWithLevel l = DefaultPatchInfo\<lparr>TessellationLevel := l\<rparr>"

definition EmptyPatchBuffers :: FGPUTessellationPatchBuffers where
  "EmptyPatchBuffers = \<lparr> Buffers = [], PatchInfos = [], GridCountX = 0, GridCountY = 0 \<rparr>"

text \<open>
  What the generation loop leaves in the buffer set of one patch: a culled patch and a
  patch with an invalid level are reset, any other patch is handed to
  \<open>GenerateSinglePatch\<close>.
\<close>

definition PatchOutcome ::
  "FGPUTessellationPatchInfo \<Rightarrow> FGPUTessellationBuffers \<Rightarrow> FGPUTessellationBuffers" where
  "PatchOutcome Patch B =
     (if \<not> bVisible Patch then Reset B
      else if TessellationLevel Patch \<le> 0 then Reset B
      else GenerateSinglePatch Patch B)"

text \<open>
  A frame in which the camera is found 500 units from the component (inside the default
  minimum distance), at scale 1 and with a quarter of a second of frame time.
\<close>

definition NearCameraFrame :: TickEnvironment where
  "NearCameraFrame =
     \<lparr> DeltaTime = 1 / 4, World = True, PlayerCamera = Some (0, 0, 500), EditorCamera = None,
       Distance = 500, MaxScale = 1 \<rparr>"

text \<open>
  The level a discrete-mode evaluation commits, as a function of the settings and the last
  applied level; likewise for a continuous-mode evaluation that snaps (no smoothing).
\<close>

definition DiscreteCommit :: "TickEnvironment \<Rightarrow> FGPUTessellationSettings \<Rightarrow> int \<Rightarrow> int" where
  "DiscreteCommit env S L =
     (if \<not> World env then L
      else case FindCamera env of
        None \<Rightarrow> L
      | Some CameraPos \<Rightarrow>
          if \<bar>DiscreteTargetTessFactor S (Distance env / MaxScale env) - L\<bar> \<ge> LODHysteresis S
          then DiscreteTargetTessFactor S (Distance env / MaxScale env)
          else L)"

definition SnapCommit ::
  "TickEnvironment \<Rightarrow> UGPUTessellationComponent \<Rightarrow> FGPUTessellationSettings \<Rightarrow> int \<Rightarrow> int" where
  "SnapCommit env c0 S L =
     (if \<not> World env then L
      else case FindCamera env of
        None \<Rightarrow> L
      | Some CameraPos \<Rightarrow>
          if \<bar>CalculateLODFactorScaled (c0\<lparr>TessellationSettings := S\<rparr>) (Distance env)
                (MinTessellationDistance S * MaxScale env) (MaxTessellationDistance S * MaxScale env) - L\<bar>
             > LODHysteresis S
          then CalculateLODFactorScaled (c0\<lparr>TessellationSettings := S\<rparr>) (Distance env)
                (MinTessellationDistance S * MaxScale env) (MaxTessellationDistance S * MaxScale env)
          else L)"

text \<open>
  A frame with the camera 60000 units away (beyond the default maximum distance), and the
  default component switched to continuous distance-based LOD.
\<close>

definition FarCameraFrame :: TickEnvironment where
  "FarCameraFrame =
     \<lparr> DeltaTime = 1 / 4, World = True, PlayerCamera = Some (0, 0, 60000), EditorCamera = None,
       Distance = 60000, MaxScale = 1 \<rparr>"

definition ContinuousComponent :: UGPUTessellationComponent where
  "ContinuousComponent =
     DefaultComponent\<lparr>TessellationSettings := DefaultSettings\<lparr>LODMode := DistanceBased\<rparr>\<rparr>"

text \<open>The default component with smoothing switched off.\<close>

definition SnapComponent :: UGPUTessellationComponent where
  "SnapComponent =
     DefaultComponent\<lparr>TessellationSettings := DefaultSettings\<lparr>LODTransitionSpeed := 0\<rparr>\<rparr>"

text \<open>The array index of the patch in row \<open>fst p\<close> and column \<open>snd p\<close> of a grid of width \<open>w\<close>.\<close>

definition GridIndex :: "nat \<Rightarrow> nat \<times> nat \<Rightarrow> nat" where
  "GridIndex w p = fst p * w + snd p"

section \<open>Properties of the resolution calculator\<close>

lemma idiv_nonneg: "0 \<le> a \<Longrightarrow> 0 < b \<Longrightarrow> idiv a b = a div b"
  by (simp add: idiv_def)

lemma CalculateResolution_segments:
  "CalculateResolution f =
     (let d = Clamp (max 1 (wrap32 (RoundToInt f * 4))) 8 1023;
          r = min (Clamp ((7 + d) div 8 * 8) 8 1023 + 1) 1024
      in (r, r))"
proof -
  have "8 \<le> Clamp (max 1 (wrap32 (RoundToInt f * 4))) 8 (1023::int)"
    by (simp add: Clamp_def)
  then show ?thesis
    by (simp add: CalculateResolution_def Let_def DivideAndRoundUp_def idiv_nonneg
        ThreadGroupSize_def MaxSegments_def MaxResolution_def)
qed

lemma RoundToInt_of_int:
  "- 2147483648 \<le> n \<Longrightarrow> n < 2147483648 \<Longrightarrow> RoundToInt (of_int n) = n"
proof -
  assume a: "- 2147483648 \<le> n" "n < 2147483648"
  have "\<lfloor>of_int n + (1::real) / 2\<rfloor> = n" by linarith
  moreover have "wrap32 n = n"
    using a by (simp add: wrap32_def)
  ultimately show ?thesis by (simp add: RoundToInt_def)
qed

lemma RoundToInt_small:
  assumes "0 \<le> f" "f < 536870911"
  shows "RoundToInt f = \<lfloor>f + 1 / 2\<rfloor>" "0 \<le> \<lfloor>f + 1 / 2\<rfloor>" "\<lfloor>f + 1 / 2\<rfloor> \<le> 536870911"
proof -
  show a: "0 \<le> \<lfloor>f + 1 / 2\<rfloor>" using assms by linarith
  show b: "\<lfloor>f + 1 / 2\<rfloor> \<le> 536870911" using assms by linarith
  show "RoundToInt f = \<lfloor>f + 1 / 2\<rfloor>" using a b by (simp add: RoundToInt_def wrap32_def)
qed

text \<open>
  Claim C1, as the code has it. For every tessellation factor the result of
  \<open>CalculateResolution\<close> is square and lies between 9 and 1024. For a factor from 0 up to
  (but excluding) 254.5, that is one that rounds to at most 254, the resolution minus one
  is a multiple of 8. From 254.5 up to (but excluding) 536870911, where four times the
  rounded factor still fits an \<open>int32\<close>, the clamp to \<open>MaxSegments = 1023\<close> and the cap
  \<open>MaxResolution = 1024\<close> apply and the result is \<open>(1024, 1024)\<close>. From 536870911 on the
  product wraps around; there only the range and the squareness are stated.
\<close>

theorem CalculateResolution_bounds:
  "9 \<le> fst (CalculateResolution f) \<and> fst (CalculateResolution f) \<le> 1024 \<and>
   fst (CalculateResolution f) = snd (CalculateResolution f) \<and>
   (0 \<le> f \<and> f < 509 / 2 \<longrightarrow> (fst (CalculateResolution f) - 1) mod 8 = 0) \<and>
   (509 / 2 \<le> f \<and> f < 536870911 \<longrightarrow> CalculateResolution f = (1024, 1024))"
proof -
  have range: "9 \<le> fst (CalculateResolution f) \<and> fst (CalculateResolution f) \<le> 1024 \<and>
      fst (CalculateResolution f) = snd (CalculateResolution f)"
    by (simp add: CalculateResolution_segments Let_def Clamp_def)
  have low: "(fst (CalculateResolution f) - 1) mod 8 = 0" if "0 \<le> f" "f < 509 / 2"
  proof -
    have r: "RoundToInt f = \<lfloor>f + 1 / 2\<rfloor>" "0 \<le> \<lfloor>f + 1 / 2\<rfloor>"
      using RoundToInt_small[of f] that by simp_all
    have "\<lfloor>f + 1 / 2\<rfloor> \<le> 254" using that by linarith
    then have w: "wrap32 (RoundToInt f * 4) = RoundToInt f * 4" "RoundToInt f * 4 \<le> 1016"
      using r by (simp_all add: wrap32_def)
    show ?thesis
      using w(2) unfolding CalculateResolution_segments w(1) Let_def Clamp_def
      by (simp split: if_splits) presburger
  qed
  have high: "CalculateResolution f = (1024, 1024)" if "509 / 2 \<le> f" "f < 536870911"
  proof -
    have r: "RoundToInt f = \<lfloor>f + 1 / 2\<rfloor>" "\<lfloor>f + 1 / 2\<rfloor> \<le> 536870911"
      using RoundToInt_small[of f] that by simp_all
    have "255 \<le> \<lfloor>f + 1 / 2\<rfloor>" using that by linarith
    then have w: "wrap32 (RoundToInt f * 4) = RoundToInt f * 4" "1020 \<le> RoundToInt f * 4"
      using r by (simp_all add: wrap32_def)
    show ?thesis
      using w(2) unfolding CalculateResolution_segments w(1) Let_def Clamp_def
      by (simp split: if_splits) presburger
  qed
  from range low high show ?thesis by blast
qed

text \<open>The theorem at the factors 16 (below the cap) and 256 (at the cap).\<close>

theorem CalculateResolution_bounds_witness:
  "(0 \<le> (16::real) \<and> (16::real) < 509 / 2) \<and> CalculateResolution 16 = (65, 65) \<and>
   (fst (CalculateResolution 16) - 1) mod 8 = 0 \<and>
   (509 / 2 \<le> (256::real) \<and> (256::real) < 536870911) \<and>
   CalculateResolution 256 = (1024, 1024)"
  using CalculateResolution_bounds[of 16] CalculateResolution_bounds[of 256]
  by (simp add: CalculateResolution_segments RoundToInt_def wrap32_def Let_def Clamp_def)

text \<open>
  Claim C1 as stated fails at the factor 256: the result is 1024 and 1023 is not a
  multiple of 8.
\<close>

theorem CalculateResolution_256_not_aligned:
  "\<not> (9 \<le> fst (CalculateResolution 256) \<and> fst (CalculateResolution 256) \<le> 1025 \<and>
      (fst (CalculateResolution 256) - 1) mod 8 = 0 \<and>
      fst (CalculateResolution 256) = snd (CalculateResolution 256))"
  by (simp add: CalculateResolution_segments RoundToInt_def wrap32_def Let_def Clamp_def)

text \<open>
  Claim C2, as the code has it. For the factor 16 \<open>CalculateResolution\<close> returns
  \<open>(65, 65)\<close>: 64 segments, already a multiple of 8, plus the closing vertex. The
  component's own \<open>CalculateGridResolution\<close>, which adds no vertex, gives \<open>(64, 64)\<close> for
  the default component (factor 16, LOD disabled).
\<close>

theorem CalculateResolution_16:
  "CalculateResolution 16 = (65, 65) \<and>
   fst (CalculateGridResolution DefaultComponent) = (64, 64)"
  by (simp add: CalculateResolution_segments RoundToInt_def wrap32_def Let_def Clamp_def
      CalculateGridResolution_def DefaultComponent_def DefaultSettings_def
      DivideAndRoundUp_def idiv_def)

text \<open>Claim C2 as stated fails: the resolution calculator does not return \<open>(64, 64)\<close>.\<close>

theorem CalculateResolution_16_not_64: "CalculateResolution 16 \<noteq> (64, 64)"
  by (simp add: CalculateResolution_segments RoundToInt_def wrap32_def Let_def Clamp_def)

section \<open>The per-patch level lookup\<close>

lemma Convert_range: "ConvertPatchLevelToTessellation L \<in> {4, 8, 16, 32, 64, 128}"
  by (simp add: ConvertPatchLevelToTessellation_def)

lemma CalculatePatchTessellationLevel_range:
  "CalculatePatchTessellationLevel D S \<in> {4, 8, 16, 32, 64, 128}"
proof -
  have "\<And>L. ConvertPatchLevelToTessellation L \<in> {4, 8, 16, 32, 64, 128}"
    by (rule Convert_range)
  then show ?thesis
    unfolding CalculatePatchTessellationLevel_def Let_def
    by (simp only: split: if_splits) simp
qed

lemma Convert_unrecognized: "5 < L \<Longrightarrow> ConvertPatchLevelToTessellation L = 16"
  by (auto simp add: ConvertPatchLevelToTessellation_def)

lemma Spec_nomatch:
  "\<forall>d\<in>set ds. \<not> D \<le> d \<Longrightarrow> length ds \<le> length ls \<Longrightarrow>
   SpecThresholdLookup D (zip ds ls) fb = (if ds = [] then fb else ls ! (length ds - 1))"
proof (induction ds arbitrary: ls fb)
  case Nil
  then show ?case by simp
next
  case (Cons d ds)
  then obtain l ls' where ls: "ls = l # ls'" by (cases ls) auto
  with Cons show ?case by (cases ds) auto
qed

lemma Find_nomatch:
  "\<forall>d\<in>set ds. \<not> D \<le> d \<Longrightarrow> FindPatchLevel D ds ls i T = T"
  by (induction ds arbitrary: i) auto

lemma Find_match:
  "\<exists>d\<in>set ds. D \<le> d \<Longrightarrow> i + length ds \<le> length ls \<Longrightarrow>
   FindPatchLevel D ds ls i T = uint (SpecThresholdLookup D (zip ds (drop i ls)) fb)"
proof (induction ds arbitrary: i fb)
  case Nil
  then show ?case by simp
next
  case (Cons d ds)
  from Cons.prems have i: "i < length ls" by simp
  then have dr: "drop i ls = ls ! i # drop (Suc i) ls"
    by (simp add: Cons_nth_drop_Suc)
  show ?case
  proof (cases "D \<le> d")
    case True
    then show ?thesis using i dr by simp
  next
    case False
    with Cons.prems have "\<exists>d\<in>set ds. D \<le> d" "Suc i + length ds \<le> length ls" by auto
    from Cons.IH[OF this] False dr show ?thesis by simp
  qed
qed

lemma sorted_le_last: "sorted ds \<Longrightarrow> d \<in> set ds \<Longrightarrow> d \<le> last (ds :: real list)"
  by (induction ds) (auto split: if_splits)

lemma CalculatePatchTessellationLevel_lookup:
  assumes "sorted (PatchDistances S)" "PatchDistances S \<noteq> []"
    "length (PatchDistances S) \<le> length (PatchLevels S)"
  shows "CalculatePatchTessellationLevel D S =
     ConvertPatchLevelToTessellation
       (SpecThresholdLookup D (zip (PatchDistances S) (PatchLevels S)) fb)"
proof -
  let ?ds = "PatchDistances S" and ?ls = "PatchLevels S"
  have ne: "?ls \<noteq> []" using assms by auto
  have lastnth: "?ds ! (length ?ds - 1) = last ?ds"
    using assms(2) by (simp add: last_conv_nth)
  show ?thesis
  proof (cases "D \<le> last ?ds")
    case True
    then have ex: "\<exists>d\<in>set ?ds. D \<le> d" using assms(2) last_in_set by blast
    have "FindPatchLevel D ?ds ?ls 0 (uint (?ls ! 0)) =
        uint (SpecThresholdLookup D (zip ?ds (drop 0 ?ls)) fb)"
      by (rule Find_match[OF ex]) (use assms in simp)
    then show ?thesis
      using True ne assms(2) lastnth
      by (simp add: CalculatePatchTessellationLevel_def Let_def)
  next
    case False
    have all: "\<forall>d\<in>set ?ds. \<not> D \<le> d"
      using sorted_le_last[OF assms(1)] False by fastforce
    have sp: "SpecThresholdLookup D (zip ?ds ?ls) fb = ?ls ! (length ?ds - 1)"
      using Spec_nomatch[OF all assms(3)] assms(2) by simp
    have li: "nat (min (int (length ?ds)) (int (length ?ls)) - 1) = length ?ds - 1"
      using assms(2,3) by (simp add: min_def)
    have lt: "0 \<le> min (int (length ?ds)) (int (length ?ls)) - 1 \<and>
         min (int (length ?ds)) (int (length ?ls)) - 1 < int (length ?ls)"
      using assms(2,3) by (cases ?ds) (auto simp: min_def)
    show ?thesis
      using False ne assms(2) lastnth lt li sp Find_nomatch[OF all]
      by (simp add: CalculatePatchTessellationLevel_def Let_def)
  qed
qed

section \<open>The patch grid\<close>

lemma fold_rows_product:
  "fold (\<lambda>Y. fold (f Y) xs) ys s = fold (\<lambda>p. f (fst p) (snd p)) (List.product ys xs) s"
  by (induction ys arbitrary: s) (simp_all add: fold_map comp_def)

lemma GridIndex_inj:
  assumes "snd p < w" "snd q < w" "GridIndex w p = GridIndex w q"
  shows "p = q"
proof -
  have "(fst p * w + snd p) div w = fst p" "(fst q * w + snd q) div w = fst q"
    using assms(1,2) by simp_all
  then have f: "fst p = fst q" using assms(3) by (simp add: GridIndex_def)
  then have "snd p = snd q" using assms(3) by (simp add: GridIndex_def)
  with f show ?thesis by (simp add: prod_eq_iff)
qed

lemma GridIndex_less:
  assumes "fst p < h" "snd p < w"
  shows "GridIndex w p < h * w"
proof -
  have "fst p * w + snd p < fst p * w + w" using assms(2) by simp
  also have "\<dots> = Suc (fst p) * w" by simp
  also have "\<dots> \<le> h * w" using assms(1) by (intro mult_le_mono1) simp
  finally show ?thesis by (simp add: GridIndex_def)
qed

lemma distinct_grid:
  "distinct (map (GridIndex w) (List.product [0..<h] [0..<w]))"
proof -
  have "inj_on (GridIndex w) (set (List.product [0..<h] [0..<w]))"
  proof (rule inj_onI)
    fix p q
    assume "p \<in> set (List.product [0..<h] [0..<w])" "q \<in> set (List.product [0..<h] [0..<w])"
      and e: "GridIndex w p = GridIndex w q"
    then have "snd p < w" "snd q < w" by auto
    then show "p = q" using e by (rule GridIndex_inj)
  qed
  then show ?thesis by (simp add: distinct_map distinct_product)
qed

lemma fold_update_other:
  "j \<notin> idx ` set ps \<Longrightarrow> fold (\<lambda>p Out. Out[idx p := g p Out]) ps P ! j = P ! j"
  by (induction ps arbitrary: P) auto

lemma fold_update_length:
  "length (fold (\<lambda>p Out. Out[idx p := g p Out]) ps P) = length P"
  by (induction ps arbitrary: P) auto

lemma fold_update_at:
  assumes "distinct (map idx ps)" "q \<in> set ps" "idx q < length P"
  shows "fold (\<lambda>p Out. Out[idx p := h p (Out ! idx p)]) ps P ! idx q = h q (P ! idx q)"
  using assms
proof (induction ps arbitrary: P)
  case Nil
  then show ?case by simp
next
  case (Cons p ps)
  show ?case
  proof (cases "q = p")
    case True
    have "idx p \<notin> idx ` set ps" using Cons.prems(1) by auto
    then show ?thesis
      using True Cons.prems(3)
      by (simp add: fold_update_other[where g = "\<lambda>p Out. h p (Out ! idx p)"])
  next
    case False
    then have q: "q \<in> set ps" using Cons.prems(2) by simp
    have "idx p \<notin> idx ` set ps" using Cons.prems(1) by simp
    moreover have "idx q \<in> idx ` set ps" using q by (rule imageI)
    ultimately have ne: "idx q \<noteq> idx p" by metis
    have "fold (\<lambda>p Out. Out[idx p := h p (Out ! idx p)]) ps (P[idx p := h p (P ! idx p)]) ! idx q
        = h q (P[idx p := h p (P ! idx p)] ! idx q)"
      using Cons.IH[of "P[idx p := h p (P ! idx p)]"] Cons.prems q by simp
    then show ?thesis using ne by simp
  qed
qed

lemma CalculatePatchInfo_nth:
  assumes "0 < CountX" "0 < CountY" "X < nat CountX" "Y < nat CountY"
  shows "CalculatePatchInfo S PD VF CountX CountY ! (Y * nat CountX + X) =
     CalculatePatch S (PD (Y * nat CountX + X)) (map_option (\<lambda>hit. hit (Y * nat CountX + X)) VF)
       CountX CountY X Y DefaultPatchInfo"
proof -
  let ?w = "nat CountX" and ?h = "nat CountY"
  let ?P = "replicate (nat (CountX * CountY)) DefaultPatchInfo"
  let ?hh = "\<lambda>p old. CalculatePatch S (PD (GridIndex ?w p)) (map_option (\<lambda>hit. hit (GridIndex ?w p)) VF)
       CountX CountY (snd p) (fst p) old"
  have eq: "CalculatePatchInfo S PD VF CountX CountY =
      fold (\<lambda>p Out. Out[GridIndex ?w p := ?hh p (Out ! GridIndex ?w p)]) (List.product [0..<?h] [0..<?w]) ?P"
    by (simp add: CalculatePatchInfo_def Let_def fold_rows_product GridIndex_def)
  have n: "nat (CountX * CountY) = ?h * ?w"
    using assms(1,2) by (simp add: nat_mult_distrib mult.commute)
  have lt: "GridIndex ?w (Y, X) < length ?P"
    using GridIndex_less[of "(Y, X)" ?h ?w] assms n by simp
  have "(Y, X) \<in> set (List.product [0..<?h] [0..<?w])" using assms by simp
  from fold_update_at[OF distinct_grid this lt, of ?hh]
  show ?thesis using lt by (simp add: eq GridIndex_def)
qed

lemma CalculatePatchInfo_length:
  "length (CalculatePatchInfo S PD VF CountX CountY) = nat (CountX * CountY)"
  by (simp add: CalculatePatchInfo_def Let_def fold_rows_product
      fold_update_length[where idx = "\<lambda>p. fst p * nat CountX + snd p"])

section \<open>The edge-collapse pass\<close>

lemma SameCore_refl: "SameCore P P"
  by (simp add: SameCore_def)

lemma SameCore_trans: "SameCore P Q \<Longrightarrow> SameCore Q R \<Longrightarrow> SameCore P R"
  by (simp add: SameCore_def)

lemma SameCore_fields:
  assumes "SameCore P Q"
  shows "TessellationLevel (P ! j) = TessellationLevel (Q ! j)"
    "ResolutionX (P ! j) = ResolutionX (Q ! j)"
    "ResolutionY (P ! j) = ResolutionY (Q ! j)"
    "bVisible (P ! j) = bVisible (Q ! j)"
proof -
  have e: "(P ! j)\<lparr>EdgeCollapseFactors := (1, 1, 1, 1)\<rparr> = (Q ! j)\<lparr>EdgeCollapseFactors := (1, 1, 1, 1)\<rparr>"
    using assms by (simp add: SameCore_def)
  from arg_cong[OF e, of TessellationLevel] show "TessellationLevel (P ! j) = TessellationLevel (Q ! j)" by simp
  from arg_cong[OF e, of ResolutionX] show "ResolutionX (P ! j) = ResolutionX (Q ! j)" by simp
  from arg_cong[OF e, of ResolutionY] show "ResolutionY (P ! j) = ResolutionY (Q ! j)" by simp
  from arg_cong[OF e, of bVisible] show "bVisible (P ! j) = bVisible (Q ! j)" by simp
qed

lemma update_core_nth:
  "(P[i := (P ! i)\<lparr>EdgeCollapseFactors := v\<rparr>] ! j)\<lparr>EdgeCollapseFactors := w\<rparr> =
   (P ! j)\<lparr>EdgeCollapseFactors := w\<rparr>"
proof (cases "j = i")
  case True
  show ?thesis
  proof (cases "i < length P")
    case True
    with \<open>j = i\<close> show ?thesis by simp
  next
    case False
    then have "length P \<le> i" by simp
    then show ?thesis by (simp only: list_update_beyond)
  qed
next
  case False
  then show ?thesis by simp
qed

lemma SameCore_update:
  "SameCore P Q \<Longrightarrow> SameCore (P[i := (P ! i)\<lparr>EdgeCollapseFactors := v\<rparr>]) Q"
  unfolding SameCore_def by (simp add: update_core_nth)

lemma ComputeFactor_core:
  "ComputeFactor (p\<lparr>EdgeCollapseFactors := v\<rparr>) (map_option (\<lambda>n. n\<lparr>EdgeCollapseFactors := v\<rparr>) N) b =
   ComputeFactor p N b"
  by (cases N) (simp_all add: ComputeFactor_def)

lemma GetPatch_core:
  "SameCore P Q \<Longrightarrow>
   map_option (\<lambda>n. n\<lparr>EdgeCollapseFactors := (1, 1, 1, 1)\<rparr>) (GetPatch CountX CountY P X Y) =
   map_option (\<lambda>n. n\<lparr>EdgeCollapseFactors := (1, 1, 1, 1)\<rparr>) (GetPatch CountX CountY Q X Y)"
  by (simp add: GetPatch_def SameCore_def)

lemma StepFactor_core:
  assumes "SameCore P Q"
  shows "StepFactor CountX CountY P X Y e = StepFactor CountX CountY Q X Y e"
proof -
  let ?s = "\<lambda>n. n\<lparr>EdgeCollapseFactors := (1, 1, 1, 1)\<rparr>"
  have "StepFactor CountX CountY P X Y e =
      ComputeFactor (?s (P ! (Y * nat CountX + X)))
        (map_option ?s (GetPatch CountX CountY P (NeighborX e (int X)) (NeighborY e (int Y))))
        (IsVerticalEdge e)"
    by (simp only: StepFactor_def ComputeFactor_core)
  also have "\<dots> = ComputeFactor (?s (Q ! (Y * nat CountX + X)))
        (map_option ?s (GetPatch CountX CountY Q (NeighborX e (int X)) (NeighborY e (int Y))))
        (IsVerticalEdge e)"
    using assms GetPatch_core[OF assms] by (simp add: SameCore_def)
  also have "\<dots> = StepFactor CountX CountY Q X Y e"
    by (simp only: StepFactor_def ComputeFactor_core)
  finally show ?thesis .
qed

lemma EdgeTransitionStep_facts:
  assumes len: "Y * nat CountX + X < length P"
  shows "SameCore (EdgeTransitionStep CountX CountY X Y P) P"
    and "EdgeCollapseFactors (EdgeTransitionStep CountX CountY X Y P ! (Y * nat CountX + X)) =
         (StepFactor CountX CountY P X Y West, StepFactor CountX CountY P X Y East,
          StepFactor CountX CountY P X Y South, StepFactor CountX CountY P X Y North)"
    and "j \<noteq> Y * nat CountX + X \<Longrightarrow> EdgeTransitionStep CountX CountY X Y P ! j = P ! j"
proof -
  define i where "i = Y * nat CountX + X"
  define P0 where "P0 = P[i := (P ! i)\<lparr>EdgeCollapseFactors := (1, 1, 1, 1)\<rparr>]"
  define W where "W = ComputeFactor (P0 ! i) (GetPatch CountX CountY P0 (int X - 1) (int Y)) True"
  define P1 where "P1 = P0[i := (P0 ! i)\<lparr>EdgeCollapseFactors :=
                   (case EdgeCollapseFactors (P0 ! i) of (a, b, c, d) \<Rightarrow> (W, b, c, d))\<rparr>]"
  define E where "E = ComputeFactor (P1 ! i) (GetPatch CountX CountY P1 (int X + 1) (int Y)) True"
  define P2 where "P2 = P1[i := (P1 ! i)\<lparr>EdgeCollapseFactors :=
                   (case EdgeCollapseFactors (P1 ! i) of (a, b, c, d) \<Rightarrow> (a, E, c, d))\<rparr>]"
  define S where "S = ComputeFactor (P2 ! i) (GetPatch CountX CountY P2 (int X) (int Y - 1)) False"
  define P3 where "P3 = P2[i := (P2 ! i)\<lparr>EdgeCollapseFactors :=
                   (case EdgeCollapseFactors (P2 ! i) of (a, b, c, d) \<Rightarrow> (a, b, S, d))\<rparr>]"
  define N where "N = ComputeFactor (P3 ! i) (GetPatch CountX CountY P3 (int X) (int Y + 1)) False"
  define P4 where "P4 = P3[i := (P3 ! i)\<lparr>EdgeCollapseFactors :=
                   (case EdgeCollapseFactors (P3 ! i) of (a, b, c, d) \<Rightarrow> (a, b, c, N))\<rparr>]"
  have step: "EdgeTransitionStep CountX CountY X Y P = P4"
    by (simp only: EdgeTransitionStep_def Let_def P4_def N_def P3_def S_def P2_def E_def
        P1_def W_def P0_def i_def)
  have i: "i < length P" using len by (simp add: i_def)
  have c0: "SameCore P0 P" unfolding P0_def by (rule SameCore_update[OF SameCore_refl])
  have c1: "SameCore P1 P" unfolding P1_def by (rule SameCore_update[OF c0])
  have c2: "SameCore P2 P" unfolding P2_def by (rule SameCore_update[OF c1])
  have c3: "SameCore P3 P" unfolding P3_def by (rule SameCore_update[OF c2])
  have c4: "SameCore P4 P" unfolding P4_def by (rule SameCore_update[OF c3])
  have l0: "i < length P0" using i by (simp add: P0_def)
  have l1: "i < length P1" using l0 by (simp add: P1_def)
  have l2: "i < length P2" using l1 by (simp add: P2_def)
  have l3: "i < length P3" using l2 by (simp add: P3_def)
  have W: "W = StepFactor CountX CountY P X Y West"
    using StepFactor_core[OF c0, of CountX CountY X Y West]
    by (simp add: W_def StepFactor_def i_def)
  have E: "E = StepFactor CountX CountY P X Y East"
    using StepFactor_core[OF c1, of CountX CountY X Y East]
    by (simp add: E_def StepFactor_def i_def)
  have S: "S = StepFactor CountX CountY P X Y South"
    using StepFactor_core[OF c2, of CountX CountY X Y South]
    by (simp add: S_def StepFactor_def i_def)
  have N: "N = StepFactor CountX CountY P X Y North"
    using StepFactor_core[OF c3, of CountX CountY X Y North]
    by (simp add: N_def StepFactor_def i_def)
  have e0: "EdgeCollapseFactors (P0 ! i) = (1, 1, 1, 1)" using i by (simp add: P0_def)
  have e1: "EdgeCollapseFactors (P1 ! i) = (W, 1, 1, 1)" using l0 e0 by (simp add: P1_def)
  have e2: "EdgeCollapseFactors (P2 ! i) = (W, E, 1, 1)" using l1 e1 by (simp add: P2_def)
  have e3: "EdgeCollapseFactors (P3 ! i) = (W, E, S, 1)" using l2 e2 by (simp add: P3_def)
  have e4: "EdgeCollapseFactors (P4 ! i) = (W, E, S, N)" using l3 e3 by (simp add: P4_def)
  show "SameCore (EdgeTransitionStep CountX CountY X Y P) P" using c4 step by simp
  show "EdgeCollapseFactors (EdgeTransitionStep CountX CountY X Y P ! (Y * nat CountX + X)) =
         (StepFactor CountX CountY P X Y West, StepFactor CountX CountY P X Y East,
          StepFactor CountX CountY P X Y South, StepFactor CountX CountY P X Y North)"
    using e4 step W E S N by (simp add: i_def)
  show "EdgeTransitionStep CountX CountY X Y P ! j = P ! j" if "j \<noteq> Y * nat CountX + X"
  proof -
    have ji: "i \<noteq> j" using that by (simp add: i_def)
    have "P4 ! j = P3 ! j" using ji by (simp add: P4_def)
    also have "\<dots> = P2 ! j" using ji by (simp add: P3_def)
    also have "\<dots> = P1 ! j" using ji by (simp add: P2_def)
    also have "\<dots> = P0 ! j" using ji by (simp add: P1_def)
    also have "\<dots> = P ! j" using ji by (simp add: P0_def)
    finally show ?thesis using step by simp
  qed
qed

lemma SameCore_length: "SameCore P Q \<Longrightarrow> length P = length Q"
  by (simp add: SameCore_def)

lemma fold_edge_core:
  "\<forall>p\<in>set ps. GridIndex (nat CountX) p < length P \<Longrightarrow>
   SameCore (fold (\<lambda>p. EdgeTransitionStep CountX CountY (snd p) (fst p)) ps P) P"
proof (induction ps arbitrary: P)
  case Nil
  then show ?case by (simp add: SameCore_refl)
next
  case (Cons p ps)
  let ?P' = "EdgeTransitionStep CountX CountY (snd p) (fst p) P"
  have c: "SameCore ?P' P"
    using Cons.prems by (intro EdgeTransitionStep_facts(1)) (simp add: GridIndex_def)
  then have "\<forall>q\<in>set ps. GridIndex (nat CountX) q < length ?P'"
    using Cons.prems by (simp add: SameCore_length)
  from Cons.IH[OF this] c show ?case by (simp add: SameCore_trans)
qed

lemma fold_edge_other:
  "\<forall>p\<in>set ps. GridIndex (nat CountX) p < length P \<Longrightarrow> j \<notin> GridIndex (nat CountX) ` set ps \<Longrightarrow>
   fold (\<lambda>p. EdgeTransitionStep CountX CountY (snd p) (fst p)) ps P ! j = P ! j"
proof (induction ps arbitrary: P)
  case Nil
  then show ?case by simp
next
  case (Cons p ps)
  let ?P' = "EdgeTransitionStep CountX CountY (snd p) (fst p) P"
  have len: "fst p * nat CountX + snd p < length P"
    using Cons.prems(1) by (simp add: GridIndex_def)
  have c: "SameCore ?P' P" using len by (rule EdgeTransitionStep_facts(1))
  have ne: "j \<noteq> fst p * nat CountX + snd p"
    using Cons.prems(2) by (auto simp: GridIndex_def)
  have "\<forall>q\<in>set ps. GridIndex (nat CountX) q < length ?P'"
    using Cons.prems c by (simp add: SameCore_length)
  moreover have "j \<notin> GridIndex (nat CountX) ` set ps" using Cons.prems(2) by simp
  ultimately have "fold (\<lambda>p. EdgeTransitionStep CountX CountY (snd p) (fst p)) ps ?P' ! j = ?P' ! j"
    by (rule Cons.IH)
  also have "\<dots> = P ! j" using len ne by (rule EdgeTransitionStep_facts(3))
  finally show ?case by simp
qed

lemma fold_edge_at:
  assumes "distinct (map (GridIndex (nat CountX)) ps)"
    "\<forall>p\<in>set ps. GridIndex (nat CountX) p < length P" "q \<in> set ps"
  shows "EdgeCollapseFactors
           (fold (\<lambda>p. EdgeTransitionStep CountX CountY (snd p) (fst p)) ps P ! GridIndex (nat CountX) q) =
         (StepFactor CountX CountY P (snd q) (fst q) West, StepFactor CountX CountY P (snd q) (fst q) East,
          StepFactor CountX CountY P (snd q) (fst q) South, StepFactor CountX CountY P (snd q) (fst q) North)"
  using assms
proof (induction ps arbitrary: P)
  case Nil
  then show ?case by simp
next
  case (Cons p ps)
  let ?P' = "EdgeTransitionStep CountX CountY (snd p) (fst p) P"
  let ?F = "fold (\<lambda>p. EdgeTransitionStep CountX CountY (snd p) (fst p)) ps ?P'"
  have len: "fst p * nat CountX + snd p < length P"
    using Cons.prems(2) by (simp add: GridIndex_def)
  have c: "SameCore ?P' P" using len by (rule EdgeTransitionStep_facts(1))
  have all': "\<forall>q\<in>set ps. GridIndex (nat CountX) q < length ?P'"
    using Cons.prems(2) c by (simp add: SameCore_length)
  show ?case
  proof (cases "q = p")
    case True
    have "GridIndex (nat CountX) p \<notin> GridIndex (nat CountX) ` set ps"
      using Cons.prems(1) by simp
    with all' have "?F ! GridIndex (nat CountX) p = ?P' ! GridIndex (nat CountX) p"
      by (rule fold_edge_other)
    then show ?thesis
      using True EdgeTransitionStep_facts(2)[OF len, of CountY] by (simp add: GridIndex_def)
  next
    case False
    then have q: "q \<in> set ps" using Cons.prems(3) by simp
    have d: "distinct (map (GridIndex (nat CountX)) ps)" using Cons.prems(1) by simp
    from Cons.IH[OF d all' q] StepFactor_core[OF c]
    show ?thesis by simp
  qed
qed

lemma ComputePatchEdgeTransitions_facts:
  assumes "0 < CountX" "0 < CountY" "length P = nat (CountX * CountY)"
  shows "SameCore (ComputePatchEdgeTransitions CountX CountY P) P"
    and "X < nat CountX \<Longrightarrow> Y < nat CountY \<Longrightarrow>
         EdgeFactor e (EdgeCollapseFactors (ComputePatchEdgeTransitions CountX CountY P ! (Y * nat CountX + X))) =
         StepFactor CountX CountY P X Y e"
proof -
  let ?w = "nat CountX" and ?h = "nat CountY"
  let ?ps = "List.product [0..<?h] [0..<?w]"
  have n: "nat (CountX * CountY) = ?h * ?w"
    using assms(1,2) by (simp add: nat_mult_distrib mult.commute)
  have li: "int (length P) = CountX * CountY" using assms by simp
  have eq: "ComputePatchEdgeTransitions CountX CountY P =
      fold (\<lambda>p. EdgeTransitionStep CountX CountY (snd p) (fst p)) ?ps P"
    using assms(1,2) li by (simp add: ComputePatchEdgeTransitions_def Let_def fold_rows_product)
  have all: "\<forall>p\<in>set ?ps. GridIndex ?w p < length P"
    using GridIndex_less[of _ ?h ?w] assms(3) n by auto
  show "SameCore (ComputePatchEdgeTransitions CountX CountY P) P"
    unfolding eq using all by (rule fold_edge_core)
  show "EdgeFactor e (EdgeCollapseFactors (ComputePatchEdgeTransitions CountX CountY P ! (Y * nat CountX + X))) =
         StepFactor CountX CountY P X Y e" if "X < nat CountX" "Y < nat CountY"
  proof -
    have "(Y, X) \<in> set ?ps" using that by simp
    from fold_edge_at[OF distinct_grid all this]
    show ?thesis unfolding eq by (cases e) (simp_all add: GridIndex_def)
  qed
qed

lemma collapse_arith:
  assumes "1 \<le> a" "1 \<le> c"
  shows "(if c \<le> 0 \<or> a \<le> c then 1 else Clamp (max 1 (idiv a c)) 1 64) =
         min 64 (max 1 (max 1 (a div c)))"
proof -
  have d: "idiv a c = a div c" using assms by (simp add: idiv_def)
  consider "a < c" | "a = c" | "c < a" by linarith
  then show ?thesis
  proof cases
    case 1
    then have "a div c = 0" using assms by simp
    with 1 show ?thesis by simp
  next
    case 2
    then have "a div c = 1" using assms by simp
    with 2 show ?thesis by simp
  next
    case 3
    have "c div c \<le> a div c" using 3 assms by (intro zdiv_mono1) simp_all
    then have "1 \<le> a div c" using assms by simp
    with 3 assms d show ?thesis by (simp add: Clamp_def max_def min_def)
  qed
qed

lemma ComputeFactor_spec:
  assumes "2 \<le> ResolutionX p" "2 \<le> ResolutionY p" "2 \<le> ResolutionX n" "2 \<le> ResolutionY n"
  shows "ComputeFactor p (Some n) b = SpecCollapseFactor b p n"
proof -
  define a where "a = SpecSegments b p"
  define c where "c = SpecSegments b n"
  have ac: "1 \<le> a" "1 \<le> c"
    using assms by (simp_all add: a_def c_def SpecSegments_def)
  have m: "max 1 (ResolutionX p - 1) = ResolutionX p - 1" "max 1 (ResolutionY p - 1) = ResolutionY p - 1"
    "max 1 (ResolutionX n - 1) = ResolutionX n - 1" "max 1 (ResolutionY n - 1) = ResolutionY n - 1"
    using assms by simp_all
  have pos: "\<not> (ResolutionX p \<le> 0 \<or> ResolutionY p \<le> 0 \<or> ResolutionX n \<le> 0 \<or> ResolutionY n \<le> 0)"
    using assms by simp
  have "ComputeFactor p (Some n) b =
      (if TessellationLevel n \<ge> TessellationLevel p then 1
       else (if c \<le> 0 \<or> a \<le> c then 1 else Clamp (max 1 (idiv a c)) 1 64))"
    unfolding ComputeFactor_def Let_def option.case if_not_P[OF pos] a_def c_def SpecSegments_def
    by (cases b) (simp_all only: m if_True if_False)
  also have "\<dots> = (if TessellationLevel n \<ge> TessellationLevel p then 1
       else min 64 (max 1 (max 1 (a div c))))"
    by (simp only: collapse_arith[OF ac])
  also have "\<dots> = SpecCollapseFactor b p n"
    unfolding SpecCollapseFactor_def a_def c_def by (simp add: not_le)
  finally show ?thesis .
qed

lemma CalculatePatchInfo_fields:
  fixes S PD VF CountX CountY X Y
  defines "p \<equiv> CalculatePatchInfo S PD VF CountX CountY ! (Y * nat CountX + X)"
  assumes "0 < CountX" "0 < CountY" "X < nat CountX" "Y < nat CountY"
  shows "TessellationLevel p = CalculatePatchTessellationLevel (PD (Y * nat CountX + X)) S"
    and "ResolutionX p = fst (CalculateResolution (real_of_int (TessellationLevel p)))"
    and "ResolutionY p = snd (CalculateResolution (real_of_int (TessellationLevel p)))"
    and "bVisible p = (case VF of None \<Rightarrow> True
           | Some hit \<Rightarrow> if bEnablePatchCulling S then hit (Y * nat CountX + X) else True)"
    and "PatchOffset p = (real X * (1 / real_of_int CountX), real Y * (1 / real_of_int CountY))"
    and "PatchSize p = (1 / real_of_int CountX, 1 / real_of_int CountY)"
  unfolding p_def CalculatePatchInfo_nth[OF assms(2-5)]
  by (cases VF; simp add: CalculatePatch_def Let_def)+

lemma SpecCollapseFactor_core:
  assumes "SameCore P Q"
  shows "SpecCollapseFactor b (P ! i) (P ! j) = SpecCollapseFactor b (Q ! i) (Q ! j)"
  by (simp add: SpecCollapseFactor_def SpecSegments_def SameCore_fields[OF assms])

lemma GetPatch_Some:
  assumes "GetPatch CountX CountY P X Y = Some n"
  shows "0 \<le> X" "X < CountX" "0 \<le> Y" "Y < CountY" "n = P ! nat (Y * CountX + X)"
    "nat (Y * CountX + X) = nat Y * nat CountX + nat X"
proof -
  have r: "\<not> (X < 0 \<or> X \<ge> CountX \<or> Y < 0 \<or> Y \<ge> CountY)"
    using assms by (auto simp: GetPatch_def split: if_splits)
  then show "0 \<le> X" "X < CountX" "0 \<le> Y" "Y < CountY" by simp_all
  show "n = P ! nat (Y * CountX + X)" using assms r by (simp add: GetPatch_def)
  have "Y * CountX + X = int (nat Y * nat CountX + nat X)" using r by simp
  then show "nat (Y * CountX + X) = nat Y * nat CountX + nat X" by (simp only: nat_int)
qed

text \<open>
  Claim C3. In the patch grid the pipeline builds (levels and resolutions from
  \<open>CalculatePatchInfo\<close>, then the edge pass), for every patch and every edge with a
  neighbour present, the collapse factor of that edge is \<open>max(1, mySegments /
  neighborSegments)\<close> clamped to \<open>[1, 64]\<close> when the neighbour's level is strictly lower, and
  1 otherwise.
\<close>

theorem edge_collapse_factor:
  assumes "0 < CountX" "0 < CountY"
    and "X < nat CountX" "Y < nat CountY"
    and "PatchInfo = ComputePatchEdgeTransitions CountX CountY
                       (CalculatePatchInfo S PD VF CountX CountY)"
    and "GetPatch CountX CountY PatchInfo (NeighborX e (int X)) (NeighborY e (int Y)) = Some Neighbor"
  shows "EdgeFactor e (EdgeCollapseFactors (PatchInfo ! (Y * nat CountX + X))) =
         SpecCollapseFactor (IsVerticalEdge e) (PatchInfo ! (Y * nat CountX + X)) Neighbor"
proof -
  let ?P0 = "CalculatePatchInfo S PD VF CountX CountY"
  let ?i = "Y * nat CountX + X"
  let ?nx = "NeighborX e (int X)" and ?ny = "NeighborY e (int Y)"
  let ?j = "nat ?ny * nat CountX + nat ?nx"
  have len: "length ?P0 = nat (CountX * CountY)" by (rule CalculatePatchInfo_length)
  have core: "SameCore PatchInfo ?P0"
    unfolding assms(5) using assms(1,2) len by (rule ComputePatchEdgeTransitions_facts(1))
  have fac: "EdgeFactor e (EdgeCollapseFactors (PatchInfo ! ?i)) = StepFactor CountX CountY ?P0 X Y e"
    unfolding assms(5) using assms(1,2) len assms(3,4) by (rule ComputePatchEdgeTransitions_facts(2))
  note g = GetPatch_Some[OF assms(6)]
  have nb: "Neighbor = PatchInfo ! ?j" using g(5,6) by simp
  have g0: "GetPatch CountX CountY ?P0 ?nx ?ny = Some (?P0 ! ?j)"
    using g(1-4,6) by (simp add: GetPatch_def)
  have jx: "nat ?nx < nat CountX" "nat ?ny < nat CountY" using g(1-4) by simp_all
  have r9: "9 \<le> fst (CalculateResolution f) \<and> 9 \<le> snd (CalculateResolution f)" for f
    by (simp add: CalculateResolution_segments Let_def Clamp_def)
  have ri: "2 \<le> ResolutionX (?P0 ! ?i)" "2 \<le> ResolutionY (?P0 ! ?i)"
    using CalculatePatchInfo_fields(2,3)[OF assms(1-4), of S PD VF]
      r9[of "real_of_int (TessellationLevel (?P0 ! ?i))"] by simp_all
  have rj: "2 \<le> ResolutionX (?P0 ! ?j)" "2 \<le> ResolutionY (?P0 ! ?j)"
    using CalculatePatchInfo_fields(2,3)[OF assms(1,2) jx, of S PD VF]
      r9[of "real_of_int (TessellationLevel (?P0 ! ?j))"] by simp_all
  have "StepFactor CountX CountY ?P0 X Y e =
      ComputeFactor (?P0 ! ?i) (Some (?P0 ! ?j)) (IsVerticalEdge e)"
    by (simp only: StepFactor_def g0)
  also have "\<dots> = SpecCollapseFactor (IsVerticalEdge e) (?P0 ! ?i) (?P0 ! ?j)"
    using ri rj by (rule ComputeFactor_spec)
  also have "\<dots> = SpecCollapseFactor (IsVerticalEdge e) (PatchInfo ! ?i) (PatchInfo ! ?j)"
    by (rule SpecCollapseFactor_core[OF core, symmetric])
  finally show ?thesis using fac nb by simp
qed

lemma pipeline_patch_fields:
  fixes S PD VF CountX CountY X Y
  defines "p \<equiv> ComputePatchEdgeTransitions CountX CountY
                   (CalculatePatchInfo S PD VF CountX CountY) ! (Y * nat CountX + X)"
  assumes "0 < CountX" "0 < CountY" "X < nat CountX" "Y < nat CountY"
  shows "TessellationLevel p = CalculatePatchTessellationLevel (PD (Y * nat CountX + X)) S"
    and "ResolutionX p = fst (CalculateResolution (real_of_int (TessellationLevel p)))"
    and "ResolutionY p = snd (CalculateResolution (real_of_int (TessellationLevel p)))"
proof -
  have "SameCore (ComputePatchEdgeTransitions CountX CountY (CalculatePatchInfo S PD VF CountX CountY))
      (CalculatePatchInfo S PD VF CountX CountY)"
    using assms(2,3) CalculatePatchInfo_length by (rule ComputePatchEdgeTransitions_facts(1))
  note c = SameCore_fields[OF this, of "Y * nat CountX + X"]
  note f = CalculatePatchInfo_fields[OF assms(2-5), of S PD VF]
  show "TessellationLevel p = CalculatePatchTessellationLevel (PD (Y * nat CountX + X)) S"
    unfolding p_def c(1) by (rule f(1))
  show "ResolutionX p = fst (CalculateResolution (real_of_int (TessellationLevel p)))"
    unfolding p_def c(1,2) by (rule f(2))
  show "ResolutionY p = snd (CalculateResolution (real_of_int (TessellationLevel p)))"
    unfolding p_def c(1,3) by (rule f(3))
qed

lemma CalculateResolution_at_64: "CalculateResolution 64 = (257, 257)"
  by (simp add: CalculateResolution_segments RoundToInt_def wrap32_def Let_def Clamp_def)

lemma CalculateResolution_at_16: "CalculateResolution 16 = (65, 65)"
  by (simp add: CalculateResolution_segments RoundToInt_def wrap32_def Let_def Clamp_def)

lemma TwoPatchGrid_fields:
  "TessellationLevel (TwoPatchGrid ! 0) = 64" "ResolutionX (TwoPatchGrid ! 0) = 257"
  "ResolutionY (TwoPatchGrid ! 0) = 257"
  "TessellationLevel (TwoPatchGrid ! Suc 0) = 16" "ResolutionX (TwoPatchGrid ! Suc 0) = 65"
  "ResolutionY (TwoPatchGrid ! Suc 0) = 65"
proof -
  have l0: "CalculatePatchTessellationLevel (TwoPatchDistances 0) ScenarioSettings = 64"
    by (simp add: CalculatePatchTessellationLevel_def Let_def ConvertPatchLevelToTessellation_def
        ScenarioSettings_def DefaultSettings_def TwoPatchDistances_def)
  have l1: "CalculatePatchTessellationLevel (TwoPatchDistances 1) ScenarioSettings = 16"
    by (simp add: CalculatePatchTessellationLevel_def Let_def ConvertPatchLevelToTessellation_def
        ScenarioSettings_def DefaultSettings_def TwoPatchDistances_def)
  note a = pipeline_patch_fields[of 2 1 0 0 ScenarioSettings TwoPatchDistances None, simplified]
  note b = pipeline_patch_fields[of 2 1 1 0 ScenarioSettings TwoPatchDistances None, simplified]
  show "TessellationLevel (TwoPatchGrid ! 0) = 64" using a(1) l0 by (simp add: TwoPatchGrid_def)
  then show "ResolutionX (TwoPatchGrid ! 0) = 257" "ResolutionY (TwoPatchGrid ! 0) = 257"
    using a(2,3) CalculateResolution_at_64 by (simp_all add: TwoPatchGrid_def)
  show "TessellationLevel (TwoPatchGrid ! Suc 0) = 16" using b(1) l1 by (simp add: TwoPatchGrid_def)
  then show "ResolutionX (TwoPatchGrid ! Suc 0) = 65" "ResolutionY (TwoPatchGrid ! Suc 0) = 65"
    using b(2,3) CalculateResolution_at_16 by (simp_all add: TwoPatchGrid_def)
qed

text \<open>
  The theorem on the two-patch grid: patch A (level 64, resolution 257) has patch B (level
  16, resolution 65) on its east edge; A's east factor is 256 / 64 = 4 and B's west factor
  is 1.
\<close>

theorem edge_collapse_factor_witness:
  "(0::int) < 2 \<and> (0::int) < 1 \<and> (0::nat) < nat 2 \<and> (1::nat) < nat 2 \<and> (0::nat) < nat 1 \<and>
   GetPatch 2 1 TwoPatchGrid (NeighborX East (int 0)) (NeighborY East (int 0)) = Some (TwoPatchGrid ! 1) \<and>
   GetPatch 2 1 TwoPatchGrid (NeighborX West (int 1)) (NeighborY West (int 0)) = Some (TwoPatchGrid ! 0) \<and>
   TessellationLevel (TwoPatchGrid ! 0) = 64 \<and> TessellationLevel (TwoPatchGrid ! 1) = 16 \<and>
   EdgeFactor East (EdgeCollapseFactors (TwoPatchGrid ! 0)) = 4 \<and>
   EdgeFactor West (EdgeCollapseFactors (TwoPatchGrid ! 1)) = 1"
proof -
  have gE: "GetPatch 2 1 TwoPatchGrid (NeighborX East (int 0)) (NeighborY East (int 0)) = Some (TwoPatchGrid ! 1)"
    by (simp add: GetPatch_def)
  have gW: "GetPatch 2 1 TwoPatchGrid (NeighborX West (int 1)) (NeighborY West (int 0)) = Some (TwoPatchGrid ! 0)"
    by (simp add: GetPatch_def)
  have A: "EdgeFactor East (EdgeCollapseFactors (TwoPatchGrid ! 0)) =
      SpecCollapseFactor True (TwoPatchGrid ! 0) (TwoPatchGrid ! 1)"
    using edge_collapse_factor[of 2 1 0 0 TwoPatchGrid ScenarioSettings TwoPatchDistances None East
        "TwoPatchGrid ! 1"] gE
    by (simp add: TwoPatchGrid_def)
  have B: "EdgeFactor West (EdgeCollapseFactors (TwoPatchGrid ! 1)) =
      SpecCollapseFactor True (TwoPatchGrid ! 1) (TwoPatchGrid ! 0)"
    using edge_collapse_factor[of 2 1 1 0 TwoPatchGrid ScenarioSettings TwoPatchDistances None West
        "TwoPatchGrid ! 0"] gW
    by (simp add: TwoPatchGrid_def)
  show ?thesis
    using A B gE gW
    by (simp add: TwoPatchGrid_fields SpecCollapseFactor_def SpecSegments_def)
qed

text \<open>
  Claim C4. With thresholds in ascending order and a level for each threshold, the level
  \<open>CalculatePatchInfo\<close> assigns to a patch is the ordered-threshold lookup evaluated at the
  camera distance of that patch's own world centre: the first threshold the distance does
  not exceed selects its level, beyond all thresholds the level of the last threshold
  applies.
\<close>

theorem patch_level_is_threshold_lookup:
  assumes "0 < CountX" "0 < CountY" "X < nat CountX" "Y < nat CountY"
    and "sorted (PatchDistances S)" "PatchDistances S \<noteq> []"
    and "length (PatchDistances S) \<le> length (PatchLevels S)"
  shows "TessellationLevel (CalculatePatchInfo S PD VF CountX CountY ! (Y * nat CountX + X)) =
         ConvertPatchLevelToTessellation
           (SpecThresholdLookup (PD (Y * nat CountX + X))
              (zip (PatchDistances S) (PatchLevels S)) Patch_16)"
  using CalculatePatchInfo_fields(1)[OF assms(1-4), of S PD VF]
    CalculatePatchTessellationLevel_lookup[OF assms(5-7)]
  by simp

text \<open>
  Scenario 5: a 2 by 2 grid, thresholds 2000 and 5000 with levels 64 and 16; a patch at
  distance 3000 gets level 16.
\<close>

theorem patch_level_is_threshold_lookup_witness:
  "(0::int) < 2 \<and> (0::nat) < nat 2 \<and> sorted (PatchDistances ScenarioSettings) \<and>
   PatchDistances ScenarioSettings = [2000, 5000] \<and> PatchLevels ScenarioSettings = [Patch_64, Patch_16] \<and>
   length (PatchDistances ScenarioSettings) \<le> length (PatchLevels ScenarioSettings) \<and>
   TessellationLevel (CalculatePatchInfo ScenarioSettings (\<lambda>i. 3000) None 2 2 ! (0 * nat 2 + 0)) = 16"
  using patch_level_is_threshold_lookup[of 2 2 0 0 ScenarioSettings "\<lambda>i. 3000" None]
  by (simp add: ScenarioSettings_def DefaultSettings_def ConvertPatchLevelToTessellation_def)

section \<open>The generation loop\<close>

lemma GeneratePatchStep_buffers:
  "PatchBuffers (GeneratePatchStep PI i st) =
   (PatchBuffers st)[i := PatchOutcome (PI ! i) (PatchBuffers st ! i)]"
  by (simp add: GeneratePatchStep_def PatchOutcome_def Let_def)

lemma GeneratePatchStep_invalid_count:
  "SkippedInvalidLOD (GeneratePatchStep PI i st) =
   SkippedInvalidLOD st + (if bVisible (PI ! i) \<and> TessellationLevel (PI ! i) \<le> 0 then 1 else 0)"
  by (simp add: GeneratePatchStep_def Let_def)

lemma GeneratePatches_Suc:
  "fold (GeneratePatchStep PI) [0..<Suc n] st =
   GeneratePatchStep PI n (fold (GeneratePatchStep PI) [0..<n] st)"
  by simp

lemma fold_GeneratePatchStep:
  "length (PatchBuffers (fold (GeneratePatchStep PI) [0..<n] st)) = length (PatchBuffers st) \<and>
   (\<forall>i. PatchBuffers (fold (GeneratePatchStep PI) [0..<n] st) ! i =
        (if i < n \<and> i < length (PatchBuffers st) then PatchOutcome (PI ! i) (PatchBuffers st ! i)
         else PatchBuffers st ! i))"
proof (induction n)
  case 0
  then show ?case by simp
next
  case (Suc n)
  let ?F = "fold (GeneratePatchStep PI) [0..<n] st"
  have b: "PatchBuffers (fold (GeneratePatchStep PI) [0..<Suc n] st) =
      (PatchBuffers ?F)[n := PatchOutcome (PI ! n) (PatchBuffers ?F ! n)]"
    by (simp only: GeneratePatches_Suc GeneratePatchStep_buffers)
  from Suc.IH have len: "length (PatchBuffers ?F) = length (PatchBuffers st)"
    and nth: "\<And>i. PatchBuffers ?F ! i =
        (if i < n \<and> i < length (PatchBuffers st) then PatchOutcome (PI ! i) (PatchBuffers st ! i)
         else PatchBuffers st ! i)"
    by simp_all
  show ?case
  proof (intro conjI allI)
    show "length (PatchBuffers (fold (GeneratePatchStep PI) [0..<Suc n] st)) = length (PatchBuffers st)"
      by (simp only: b length_list_update len)
    fix i
    show "PatchBuffers (fold (GeneratePatchStep PI) [0..<Suc n] st) ! i =
        (if i < Suc n \<and> i < length (PatchBuffers st) then PatchOutcome (PI ! i) (PatchBuffers st ! i)
         else PatchBuffers st ! i)"
    proof (cases "i = n")
      case True
      show ?thesis
      proof (cases "n < length (PatchBuffers st)")
        case True
        with \<open>i = n\<close> len show ?thesis unfolding b by (simp add: nth)
      next
        case False
        then have "length (PatchBuffers ?F) \<le> n" using len by simp
        then have "(PatchBuffers ?F)[n := PatchOutcome (PI ! n) (PatchBuffers ?F ! n)] = PatchBuffers ?F"
          by (rule list_update_beyond)
        with False \<open>i = n\<close> show ?thesis unfolding b by (simp add: nth)
      qed
    next
      case False
      then show ?thesis unfolding b by (simp add: nth)
    qed
  qed
qed

lemma GeneratePatches_nth:
  assumes "i < n" "i < length Bufs"
  shows "PatchBuffers (GeneratePatches PI n Bufs) ! i = PatchOutcome (PI ! i) (Bufs ! i)"
  using fold_GeneratePatchStep[of PI n
      "\<lparr>PatchBuffers = Bufs, SkippedCulled = 0, SkippedInvalidLOD = 0, GeneratedSuccessfully = 0\<rparr>"]
    assms
  by (simp add: GeneratePatches_def)

lemma GeneratePatches_length:
  "length (PatchBuffers (GeneratePatches PI n Bufs)) = length Bufs"
  using fold_GeneratePatchStep[of PI n
      "\<lparr>PatchBuffers = Bufs, SkippedCulled = 0, SkippedInvalidLOD = 0, GeneratedSuccessfully = 0\<rparr>"]
  by (simp add: GeneratePatches_def)

lemma fold_invalid_count:
  "\<forall>i<n. 0 < TessellationLevel (PI ! i) \<Longrightarrow>
   SkippedInvalidLOD (fold (GeneratePatchStep PI) [0..<n] st) = SkippedInvalidLOD st"
proof (induction n)
  case 0
  then show ?case by simp
next
  case (Suc n)
  then have "SkippedInvalidLOD (fold (GeneratePatchStep PI) [0..<n] st) = SkippedInvalidLOD st"
    by simp
  moreover have "0 < TessellationLevel (PI ! n)" using Suc.prems by simp
  ultimately show ?case
    by (simp only: GeneratePatches_Suc GeneratePatchStep_invalid_count) simp
qed

lemma Reset_invalid: "\<not> IsValid (Reset B)"
  by (simp add: Reset_def IsValid_def EmptyBuffers_def)

lemma GenerateSinglePatch_invalid:
  "PatchIsInvalid P \<Longrightarrow> GenerateSinglePatch P B = Reset B"
  by (auto simp: PatchIsInvalid_def GenerateSinglePatch_def Let_def)

lemma GenerateSinglePatch_valid:
  assumes "\<not> PatchIsInvalid P"
  shows "IsValid (GenerateSinglePatch P B)"
proof -
  let ?r = "CalculateResolution (real_of_int (TessellationLevel P))"
  have r: "9 \<le> fst ?r" "9 \<le> snd ?r"
    by (simp_all add: CalculateResolution_segments Let_def Clamp_def)
  then have v: "0 < fst ?r * snd ?r" by (simp add: zero_less_mult_iff)
  have "0 < (fst ?r - 1) * (snd ?r - 1)" using r by (simp add: zero_less_mult_iff)
  then have i: "0 < (fst ?r - 1) * (snd ?r - 1) * 6" by simp
  have c: "\<not> (fst ?r * snd ?r \<le> 0 \<or> (fst ?r - 1) * (snd ?r - 1) * 6 \<le> 0)"
    using v i by (simp add: not_le)
  have d: "\<not> (fst ?r < 2 \<or> snd ?r < 2)" using r by simp
  have l: "\<not> TessellationLevel P \<le> 0" "\<not> InvalidUVParameters P"
    using assms by (simp_all add: PatchIsInvalid_def)
  show ?thesis
    unfolding GenerateSinglePatch_def Let_def if_not_P[OF l(1)] if_not_P[OF c] if_not_P[OF d]
      if_not_P[OF l(2)]
    using v i by (simp add: IsValid_def)
qed

lemma PatchOutcome_invalid: "PatchIsInvalid P \<Longrightarrow> PatchOutcome P B = Reset B"
  by (simp add: PatchOutcome_def GenerateSinglePatch_invalid)

text \<open>
  Claim C8. In the generation loop, a patch with an invalid level, a resolution below 2 by
  2 or a malformed UV window ends with its buffer set reset, hence invalid and passed
  over by the renderer. The loop still returns one buffer set per patch; the buffer set of
  every other patch is the same whatever patch \<open>i\<close> holds, and every sibling that is visible
  and well-formed is generated, valid and drawn.
\<close>

theorem invalid_patch_is_skipped_alone:
  assumes "length Bufs = length PatchInfo" and "i < length PatchInfo"
    and "PatchIsInvalid (PatchInfo ! i)"
  shows "length (PatchBuffers (GeneratePatches PatchInfo (length PatchInfo) Bufs)) = length PatchInfo \<and>
     PatchBuffers (GeneratePatches PatchInfo (length PatchInfo) Bufs) ! i = Reset (Bufs ! i) \<and>
     \<not> IsValid (PatchBuffers (GeneratePatches PatchInfo (length PatchInfo) Bufs) ! i) \<and>
     \<not> PatchIsDrawn (PatchInfo ! i) (PatchBuffers (GeneratePatches PatchInfo (length PatchInfo) Bufs) ! i) \<and>
     (\<forall>j < length PatchInfo. j \<noteq> i \<longrightarrow>
        PatchBuffers (GeneratePatches PatchInfo (length PatchInfo) Bufs) ! j =
        PatchBuffers (GeneratePatches (PatchInfo[i := Other]) (length PatchInfo) Bufs) ! j) \<and>
     (\<forall>j < length PatchInfo. bVisible (PatchInfo ! j) \<and> \<not> PatchIsInvalid (PatchInfo ! j) \<longrightarrow>
        PatchBuffers (GeneratePatches PatchInfo (length PatchInfo) Bufs) ! j =
          GenerateSinglePatch (PatchInfo ! j) (Bufs ! j) \<and>
        IsValid (PatchBuffers (GeneratePatches PatchInfo (length PatchInfo) Bufs) ! j) \<and>
        PatchIsDrawn (PatchInfo ! j) (PatchBuffers (GeneratePatches PatchInfo (length PatchInfo) Bufs) ! j))"
proof -
  let ?n = "length PatchInfo"
  let ?out = "PatchBuffers (GeneratePatches PatchInfo ?n Bufs)"
  have nth: "?out ! j = PatchOutcome (PatchInfo ! j) (Bufs ! j)" if "j < ?n" for j
    using that assms(1) by (simp add: GeneratePatches_nth)
  have nth': "PatchBuffers (GeneratePatches (PatchInfo[i := Other]) ?n Bufs) ! j =
      PatchOutcome (PatchInfo[i := Other] ! j) (Bufs ! j)" if "j < ?n" for j
    using that assms(1) by (simp add: GeneratePatches_nth)
  have a: "length ?out = ?n" using assms(1) by (simp add: GeneratePatches_length)
  have b: "?out ! i = Reset (Bufs ! i)"
    using nth[OF assms(2)] assms(3) by (simp add: PatchOutcome_invalid)
  have c: "\<not> IsValid (?out ! i)" unfolding b by (rule Reset_invalid)
  have d: "\<not> PatchIsDrawn (PatchInfo ! i) (?out ! i)" using c by (simp add: PatchIsDrawn_def)
  have e: "\<forall>j < ?n. j \<noteq> i \<longrightarrow>
      ?out ! j = PatchBuffers (GeneratePatches (PatchInfo[i := Other]) ?n Bufs) ! j"
    by (simp add: nth nth')
  have f: "\<forall>j < ?n. bVisible (PatchInfo ! j) \<and> \<not> PatchIsInvalid (PatchInfo ! j) \<longrightarrow>
      ?out ! j = GenerateSinglePatch (PatchInfo ! j) (Bufs ! j) \<and> IsValid (?out ! j) \<and>
      PatchIsDrawn (PatchInfo ! j) (?out ! j)"
  proof (intro allI impI)
    fix j assume j: "j < ?n" and g: "bVisible (PatchInfo ! j) \<and> \<not> PatchIsInvalid (PatchInfo ! j)"
    then have "0 < TessellationLevel (PatchInfo ! j)" by (simp add: PatchIsInvalid_def not_le)
    with g have o: "?out ! j = GenerateSinglePatch (PatchInfo ! j) (Bufs ! j)"
      using nth[OF j] by (simp add: PatchOutcome_def)
    moreover have "IsValid (GenerateSinglePatch (PatchInfo ! j) (Bufs ! j))"
      using g by (simp add: GenerateSinglePatch_valid)
    ultimately show "?out ! j = GenerateSinglePatch (PatchInfo ! j) (Bufs ! j) \<and> IsValid (?out ! j) \<and>
      PatchIsDrawn (PatchInfo ! j) (?out ! j)"
      using g by (simp add: PatchIsDrawn_def)
  qed
  from a b c d e f show ?thesis by blast
qed

text \<open>
  The theorem on two patches: the first has level 0 and is reset, the second has level 16
  and gets its 65 by 65 vertices.
\<close>

theorem invalid_patch_is_skipped_alone_witness:
  "length [EmptyBuffers, EmptyBuffers] = length [PatchWithLevel 0, PatchWithLevel 16] \<and>
   0 < length [PatchWithLevel 0, PatchWithLevel 16] \<and>
   PatchIsInvalid ([PatchWithLevel 0, PatchWithLevel 16] ! 0) \<and>
   \<not> IsValid (PatchBuffers (GeneratePatches [PatchWithLevel 0, PatchWithLevel 16] 2
                 [EmptyBuffers, EmptyBuffers]) ! 0) \<and>
   IsValid (PatchBuffers (GeneratePatches [PatchWithLevel 0, PatchWithLevel 16] 2
                 [EmptyBuffers, EmptyBuffers]) ! 1) \<and>
   VertexCount (PatchBuffers (GeneratePatches [PatchWithLevel 0, PatchWithLevel 16] 2
                 [EmptyBuffers, EmptyBuffers]) ! 1) = 4225"
proof -
  have r: "CalculateResolution 16 = (65, 65)"
    by (simp add: CalculateResolution_segments RoundToInt_def wrap32_def Let_def Clamp_def)
  have bad: "PatchIsInvalid (PatchWithLevel 0)"
    by (simp add: PatchIsInvalid_def PatchWithLevel_def)
  have good: "\<not> PatchIsInvalid (PatchWithLevel 16)" "bVisible (PatchWithLevel 16)"
    by (simp_all add: PatchIsInvalid_def PatchWithLevel_def DefaultPatchInfo_def r
        InvalidUVParameters_def)
  have v: "VertexCount (GenerateSinglePatch (PatchWithLevel 16) EmptyBuffers) = 4225"
    by (simp add: GenerateSinglePatch_def Let_def PatchWithLevel_def DefaultPatchInfo_def r
        InvalidUVParameters_def)
  let ?PI = "[PatchWithLevel 0, PatchWithLevel 16]"
  let ?B = "[EmptyBuffers, EmptyBuffers]"
  have l: "length ?PI = 2" by simp
  have h: "length ?B = length ?PI" "0 < length ?PI" "PatchIsInvalid (?PI ! 0)"
    using bad by simp_all
  note T = invalid_patch_is_skipped_alone[OF h, of "PatchWithLevel 16", unfolded l]
  note c = T[THEN conjunct2, THEN conjunct2, THEN conjunct1]
  note f = T[THEN conjunct2, THEN conjunct2, THEN conjunct2, THEN conjunct2, THEN conjunct2,
      rule_format, of 1]
  have g: "bVisible (?PI ! 1) \<and> \<not> PatchIsInvalid (?PI ! 1)" using good by simp
  have "(1::nat) < 2" by simp
  note f1 = f[OF this g]
  have n1: "?PI ! 1 = PatchWithLevel 16" "?B ! 1 = EmptyBuffers" by simp_all
  have e1: "PatchBuffers (GeneratePatches ?PI 2 ?B) ! 1 =
      GenerateSinglePatch (PatchWithLevel 16) EmptyBuffers"
    using f1[THEN conjunct1] by (simp only: n1)
  have e2: "IsValid (PatchBuffers (GeneratePatches ?PI 2 ?B) ! 1)"
    by (rule f1[THEN conjunct2, THEN conjunct1])
  have e3: "VertexCount (PatchBuffers (GeneratePatches ?PI 2 ?B) ! 1) = 4225"
    by (simp only: e1 v)
  from c h e2 e3 show ?thesis by (intro conjI)
qed

section \<open>Levels in a pipeline run\<close>

lemma grid_index_decompose:
  fixes i h w :: nat
  assumes "i < h * w"
  shows "i mod w < w" "i div w < h" "i = (i div w) * w + i mod w"
proof -
  have w: "0 < w" using assms by (cases w) simp_all
  then show "i mod w < w" by simp
  show "i div w < h" using assms w by (simp add: less_mult_imp_div_less)
  show "i = (i div w) * w + i mod w" by simp
qed

lemma pipeline_levels_positive:
  assumes "0 < CountX" "0 < CountY" "i < nat (CountX * CountY)"
  shows "0 < TessellationLevel
           (ComputePatchEdgeTransitions CountX CountY (CalculatePatchInfo S PD VF CountX CountY) ! i)"
proof -
  have n: "nat (CountX * CountY) = nat CountY * nat CountX"
    using assms(1,2) by (simp add: nat_mult_distrib mult.commute)
  note d = grid_index_decompose[OF assms(3)[unfolded n]]
  have "TessellationLevel
      (ComputePatchEdgeTransitions CountX CountY (CalculatePatchInfo S PD VF CountX CountY) !
         ((i div nat CountX) * nat CountX + i mod nat CountX)) =
      CalculatePatchTessellationLevel (PD ((i div nat CountX) * nat CountX + i mod nat CountX)) S"
    using assms(1,2) d(1,2) by (rule pipeline_patch_fields(1))
  moreover have "0 < CalculatePatchTessellationLevel D S" for D
    using CalculatePatchTessellationLevel_range[of D S] by auto
  ultimately show ?thesis using d(3) by simp
qed

text \<open>
  Claim C10. For every distance and every settings value
  \<open>CalculatePatchTessellationLevel\<close> returns one of 4, 8, 16, 32, 64, 128, hence a positive
  level; an empty level table gives 16 and so does a level byte outside the six
  enumerators. So in a pipeline run every patch record has a positive level and the
  branch that skips a patch for an invalid level is never taken: its counter stays 0.
\<close>

theorem patch_level_always_positive:
  "CalculatePatchTessellationLevel D S \<in> {4, 8, 16, 32, 64, 128} \<and>
   0 < CalculatePatchTessellationLevel D S \<and>
   (PatchLevels S = [] \<longrightarrow> CalculatePatchTessellationLevel D S = 16) \<and>
   (5 < L \<longrightarrow> ConvertPatchLevelToTessellation L = 16) \<and>
   (0 < CountX \<and> 0 < CountY \<longrightarrow>
      (\<exists>out st. ExecutePatchTessellationPipeline S PD VF CountX CountY Old = Inr (out, st) \<and>
         SkippedInvalidLOD st = 0 \<and> (\<forall>p \<in> set (PatchInfos out). 0 < TessellationLevel p)))"
proof -
  have a: "CalculatePatchTessellationLevel D S \<in> {4, 8, 16, 32, 64, 128}"
    by (rule CalculatePatchTessellationLevel_range)
  then have b: "0 < CalculatePatchTessellationLevel D S" by auto
  have c: "PatchLevels S = [] \<longrightarrow> CalculatePatchTessellationLevel D S = 16"
    by (simp add: CalculatePatchTessellationLevel_def)
  have d: "5 < L \<longrightarrow> ConvertPatchLevelToTessellation L = 16"
    by (simp add: Convert_unrecognized)
  have e: "\<exists>out st. ExecutePatchTessellationPipeline S PD VF CountX CountY Old = Inr (out, st) \<and>
         SkippedInvalidLOD st = 0 \<and> (\<forall>p \<in> set (PatchInfos out). 0 < TessellationLevel p)"
    if pos: "0 < CountX" "0 < CountY"
  proof -
    let ?PI = "ComputePatchEdgeTransitions CountX CountY (CalculatePatchInfo S PD VF CountX CountY)"
    let ?n = "nat (CountX * CountY)"
    let ?st = "GeneratePatches ?PI ?n (SetNum ?n EmptyBuffers (Buffers Old))"
    let ?out = "Old\<lparr> Buffers := PatchBuffers ?st, PatchInfos := ?PI,
                      GridCountX := CountX, GridCountY := CountY \<rparr>"
    have run: "ExecutePatchTessellationPipeline S PD VF CountX CountY Old = Inr (?out, ?st)"
      using pos by (simp add: ExecutePatchTessellationPipeline_def Let_def)
    have lv: "\<forall>i<?n. 0 < TessellationLevel (?PI ! i)"
      using pipeline_levels_positive[OF pos] by simp
    have cnt: "SkippedInvalidLOD ?st = 0"
      unfolding GeneratePatches_def using fold_invalid_count[OF lv] by simp
    have "SameCore ?PI (CalculatePatchInfo S PD VF CountX CountY)"
      using pos CalculatePatchInfo_length by (rule ComputePatchEdgeTransitions_facts(1))
    then have len: "length ?PI = ?n"
      by (simp add: SameCore_length CalculatePatchInfo_length)
    have "\<forall>p \<in> set (PatchInfos ?out). 0 < TessellationLevel p"
      using lv len by (auto simp: in_set_conv_nth)
    with run cnt show ?thesis by blast
  qed
  from a b c d e show ?thesis by blast
qed

text \<open>The theorem on the scenario settings and the two-patch grid.\<close>

theorem patch_level_always_positive_witness:
  "0 < CalculatePatchTessellationLevel 3000 ScenarioSettings \<and>
   PatchLevels (ScenarioSettings\<lparr>PatchLevels := []\<rparr>) = [] \<and>
   CalculatePatchTessellationLevel 3000 (ScenarioSettings\<lparr>PatchLevels := []\<rparr>) = 16 \<and>
   (5 :: 8 word) < 9 \<and> ConvertPatchLevelToTessellation 9 = 16 \<and>
   (0::int) < 2 \<and> (0::int) < 1 \<and>
   (\<exists>out st. ExecutePatchTessellationPipeline ScenarioSettings TwoPatchDistances None 2 1
                EmptyPatchBuffers = Inr (out, st) \<and> SkippedInvalidLOD st = 0)"
  using patch_level_always_positive[of 3000 ScenarioSettings 9 2 1 TwoPatchDistances None EmptyPatchBuffers]
    patch_level_always_positive[of 3000 "ScenarioSettings\<lparr>PatchLevels := []\<rparr>" 9 2 1 TwoPatchDistances None EmptyPatchBuffers]
  by auto

section \<open>Single-precision rounding\<close>

text \<open>
  Facts about the rounding: numbers with a significand of at most 24 bits are not changed,
  and a number between two consecutive powers of two is rounded on the grid of that binade.
\<close>

lemma RoundHalfEven_of_int: "RoundHalfEven (of_int z) = z"
  by (simp add: RoundHalfEven_def)

lemma FloatExponent_spec:
  "E - int n \<le> FloatExponent n E a \<and> FloatExponent n E a \<le> E \<and>
   (2 powi (FloatExponent n E a) \<le> a \<or> FloatExponent n E a = E - int n) \<and>
   (a < 2 powi (FloatExponent n E a + 1) \<or> FloatExponent n E a = E)"
proof (induction n arbitrary: E)
  case 0
  then show ?case by simp
next
  case (Suc n)
  show ?case
  proof (cases "2 powi E \<le> a")
    case True
    then show ?thesis by simp
  next
    case False
    let ?e = "FloatExponent n (E - 1) a"
    from Suc.IH[of "E - 1"] have ih: "E - 1 - int n \<le> ?e" "?e \<le> E - 1"
      "2 powi ?e \<le> a \<or> ?e = E - 1 - int n" "a < 2 powi (?e + 1) \<or> ?e = E - 1"
      by simp_all
    have up: "a < 2 powi (?e + 1)"
    proof (cases "?e = E - 1")
      case True
      then show ?thesis using False by simp
    next
      case False
      then show ?thesis using ih(4) by simp
    qed
    have r: "FloatExponent (Suc n) E a = ?e" using False by simp
    have d: "E - int (Suc n) = E - 1 - int n" by simp
    have "?e \<le> E" using ih(2) by simp
    with ih(1,3) up show ?thesis unfolding r d by blast
  qed
qed

lemma Float32_exact:
  assumes x: "x = of_int k * 2 powi j" and k: "\<bar>k\<bar> < 16777216" and j: "- 149 \<le> j"
  shows "Float32 x = x"
proof (cases "k = 0")
  case True
  then show ?thesis using x by (simp add: Float32_def Let_def RoundHalfEven_def)
next
  case False
  define e where "e = FloatExponent 253 127 \<bar>x\<bar>"
  have ax: "\<bar>x\<bar> = of_int \<bar>k\<bar> * 2 powi j" using x by (simp add: abs_mult)
  from FloatExponent_spec[of 127 253 "\<bar>x\<bar>"]
  have lo: "2 powi e \<le> \<bar>x\<bar> \<or> e = - 126" by (simp add: e_def)
  have m: "0 \<le> j - e + 23"
  proof (cases "e = - 126")
    case True
    then show ?thesis using j by simp
  next
    case False
    with lo have "2 powi e \<le> \<bar>x\<bar>" by simp
    also have "\<bar>x\<bar> < 16777216 * 2 powi j"
      unfolding ax using k by (intro mult_strict_right_mono) simp_all
    also have "(16777216::real) * 2 powi j = 2 powi (j + 24)"
      by (simp add: power_int_add)
    finally have lt: "(2::real) powi e < 2 powi (j + 24)" .
    have "e < j + 24"
    proof (rule ccontr)
      assume "\<not> e < j + 24"
      then have "j + 24 \<le> e" by simp
      then have "(2::real) powi (j + 24) \<le> 2 powi e" by (intro power_int_increasing) simp_all
      with lt show False by simp
    qed
    then show ?thesis by simp
  qed
  have q: "x / 2 powi (e - 23) = of_int (k * 2 ^ nat (j - e + 23))"
  proof -
    have "x / 2 powi (e - 23) = of_int k * (2 powi j / 2 powi (e - 23))" using x by simp
    also have "(2::real) powi j / 2 powi (e - 23) = 2 powi (j - (e - 23))"
      by (simp add: power_int_diff)
    also have "j - (e - 23) = int (nat (j - e + 23))" using m by simp
    also have "(2::real) powi int (nat (j - e + 23)) = 2 ^ nat (j - e + 23)"
      by (rule power_int_of_nat)
    finally show ?thesis by simp
  qed
  have "Float32 x = 2 powi (e - 23) * (x / 2 powi (e - 23))"
    unfolding Float32_def Let_def e_def[symmetric] q RoundHalfEven_of_int ..
  then show ?thesis by simp
qed

lemma Float32_of_int: "\<bar>k\<bar> < 16777216 \<Longrightarrow> Float32 (of_int k) = of_int k"
  using Float32_exact[of "of_int k" k 0] by simp

lemma Float32_half: "\<bar>k\<bar> < 16777216 \<Longrightarrow> Float32 (of_int k / 2) = of_int k / 2"
  using Float32_exact[of "of_int k / 2" k "- 1"] by simp

lemma Float32_dyadic:
  "\<bar>k\<bar> < 16777216 \<Longrightarrow> n \<le> 149 \<Longrightarrow> Float32 (of_int k / 2 ^ n) = of_int k / 2 ^ n"
  using Float32_exact[of "of_int k / 2 ^ n" k "- int n"]
  by (simp add: power_int_minus field_simps)

lemma Float32_at:
  assumes "- 126 \<le> e" "e \<le> 127" "2 powi e \<le> \<bar>x\<bar>" "\<bar>x\<bar> < 2 powi (e + 1)"
  shows "Float32 x = 2 powi (e - 23) * of_int (RoundHalfEven (x / 2 powi (e - 23)))"
proof -
  let ?f = "FloatExponent 253 127 \<bar>x\<bar>"
  from FloatExponent_spec[of 127 253 "\<bar>x\<bar>"]
  have s: "- 126 \<le> ?f" "?f \<le> 127" "2 powi ?f \<le> \<bar>x\<bar> \<or> ?f = - 126"
    "\<bar>x\<bar> < 2 powi (?f + 1) \<or> ?f = 127" by simp_all
  have "?f \<le> e"
  proof (rule ccontr)
    assume "\<not> ?f \<le> e"
    then have a: "e + 1 \<le> ?f" by simp
    then have "?f \<noteq> - 126" using assms(1) by simp
    with s(3) have "2 powi ?f \<le> \<bar>x\<bar>" by simp
    moreover have "(2::real) powi (e + 1) \<le> 2 powi ?f"
      using a by (intro power_int_increasing) simp_all
    ultimately show False using assms(4) by simp
  qed
  moreover have "e \<le> ?f"
  proof (rule ccontr)
    assume "\<not> e \<le> ?f"
    then have a: "?f + 1 \<le> e" by simp
    then have "?f \<noteq> 127" using assms(2) by simp
    with s(4) have "\<bar>x\<bar> < 2 powi (?f + 1)" by simp
    moreover have "(2::real) powi (?f + 1) \<le> 2 powi e"
      using a by (intro power_int_increasing) simp_all
    ultimately show False using assms(3) by simp
  qed
  ultimately have "?f = e" by simp
  then show ?thesis by (simp add: Float32_def Let_def)
qed


lemma RoundHalfEven_near:
  assumes "\<bar>r - of_int k\<bar> < 1 / 2"
  shows "RoundHalfEven r = k"
proof -
  have "\<lfloor>r\<rfloor> = k \<or> \<lfloor>r\<rfloor> = k - 1" using assms by linarith
  then show ?thesis
  proof
    assume f: "\<lfloor>r\<rfloor> = k"
    then have "r - of_int k < 1 / 2" using assms by linarith
    then show ?thesis by (simp add: RoundHalfEven_def Let_def f)
  next
    assume f: "\<lfloor>r\<rfloor> = k - 1"
    then have "1 / 2 < r - of_int (k - 1)" using assms by linarith
    then have "\<not> r - of_int (k - 1) < 1 / 2" by linarith
    with \<open>1 / 2 < r - of_int (k - 1)\<close> show ?thesis
      by (simp add: RoundHalfEven_def Let_def f)
  qed
qed

lemma RoundHalfEven_tie:
  assumes "r = of_int k + 1 / 2"
  shows "RoundHalfEven r = (if even k then k else k + 1)"
proof -
  have f: "\<lfloor>r\<rfloor> = k" unfolding assms by linarith
  show ?thesis by (simp add: RoundHalfEven_def Let_def f) (simp add: assms)
qed

lemma Float32_round:
  assumes "p \<le> 149" "8388608 \<le> \<bar>x\<bar> * 2 ^ p" "\<bar>x\<bar> * 2 ^ p < 16777216"
    "RoundHalfEven (x * 2 ^ p) = k"
  shows "Float32 x = of_int k / 2 ^ p"
proof -
  have q: "(2::real) powi (23 - int p) = 8388608 / 2 ^ p"
    "(2::real) powi (23 - int p + 1) = 16777216 / 2 ^ p"
    by (simp_all add: power_int_diff power_int_add power_int_minus field_simps)
  have b: "- 126 \<le> 23 - int p" "23 - int p \<le> 127" using assms(1) by simp_all
  have l: "2 powi (23 - int p) \<le> \<bar>x\<bar>"
    using assms(2) unfolding q(1) by (simp add: field_simps)
  have u: "\<bar>x\<bar> < 2 powi (23 - int p + 1)"
    using assms(3) unfolding q(2) by (simp add: field_simps)
  have "Float32 x = 2 powi (23 - int p - 23) *
      of_int (RoundHalfEven (x / 2 powi (23 - int p - 23)))"
    using b l u by (rule Float32_at)
  also have "x / 2 powi (23 - int p - 23) = x * 2 ^ p"
    by (simp add: power_int_minus field_simps)
  finally show ?thesis by (simp add: assms(4) power_int_minus field_simps)
qed

lemma Float32_zero: "Float32 0 = 0"
  using Float32_of_int[of 0] by simp

lemma IntToFloat_exact: "\<bar>k\<bar> < 16777216 \<Longrightarrow> IntToFloat k = of_int k"
  by (simp add: IntToFloat_def Float32_of_int)

lemma RoundToIntF_of_int:
  assumes "\<bar>k\<bar> \<le> 4194304"
  shows "RoundToIntF (of_int k) = k"
proof -
  have "of_int k + (1::real) / 2 = of_int (2 * k + 1) / 2" by simp
  moreover have "Float32 (of_int (2 * k + 1) / 2) = of_int (2 * k + 1) / 2"
    using assms by (intro Float32_half) linarith
  ultimately have "FAdd (of_int k) (1 / 2) = of_int k + 1 / 2"
    by (simp only: FAdd_def)
  moreover have "\<lfloor>of_int k + (1::real) / 2\<rfloor> = k" by linarith
  ultimately have "\<lfloor>FAdd (of_int k) (1 / 2)\<rfloor> = k" by simp
  moreover have "- 2147483648 \<le> k \<and> k < 2147483648" using assms by linarith
  ultimately show ?thesis by (simp add: RoundToIntF_def FloatToInt_def)
qed

lemma Lerp_at_0:
  assumes "\<bar>a\<bar> < 16777216"
  shows "Lerp (of_int a) B 0 = of_int a"
  using assms by (simp add: Lerp_def FAdd_def FMul_def Float32_zero Float32_of_int)

lemma Lerp_at_1:
  assumes "\<bar>a\<bar> \<le> 4194304" "\<bar>b\<bar> \<le> 4194304"
  shows "Lerp (of_int a) (of_int b) 1 = of_int b"
proof -
  have d: "FSub (of_int b) (of_int a) = of_int (b - a)"
    using assms Float32_of_int[of "b - a"] by (simp add: FSub_def)
  have "Float32 (of_int b) = of_int b" using assms by (intro Float32_of_int) linarith
  then show ?thesis
    using assms Float32_of_int[of "b - a"] by (simp add: Lerp_def FAdd_def FMul_def d)
qed

section \<open>The continuous target factor and the hysteresis\<close>

lemma target_at_near:
  assumes "\<bar>MaxTessellationFactor (TessellationSettings c)\<bar> \<le> 4194304" "d \<le> smin"
  shows "CalculateLODFactorScaled c d smin smax =
         Clamp (MaxTessellationFactor (TessellationSettings c)) 1 256"
proof -
  let ?M = "MaxTessellationFactor (TessellationSettings c)"
  have m: "IntToFloat ?M = of_int ?M" using assms(1) by (intro IntToFloat_exact) linarith
  have "Lerp (of_int ?M) B 0 = of_int ?M" for B
    using assms(1) by (intro Lerp_at_0) linarith
  then show ?thesis
    using assms by (simp add: CalculateLODFactorScaled_def Let_def m RoundToIntF_of_int)
qed

lemma target_at_far:
  assumes "\<bar>MaxTessellationFactor (TessellationSettings c)\<bar> \<le> 4194304"
    "\<bar>MinTessellationFactor (TessellationSettings c)\<bar> \<le> 4194304"
    "smin < d" "UpperThreshold smin smax \<le> d"
  shows "CalculateLODFactorScaled c d smin smax =
         Clamp (MinTessellationFactor (TessellationSettings c)) 1 256"
proof -
  let ?M = "MaxTessellationFactor (TessellationSettings c)"
  let ?m = "MinTessellationFactor (TessellationSettings c)"
  have f: "IntToFloat ?M = of_int ?M" "IntToFloat ?m = of_int ?m"
    using assms(1,2) by (intro IntToFloat_exact; linarith)+
  have n: "\<not> d \<le> smin" using assms(3) by simp
  show ?thesis
    using assms(4) n
    by (simp add: CalculateLODFactorScaled_def Let_def f UpperThreshold_def
        Lerp_at_1[OF assms(1,2)] RoundToIntF_of_int[OF assms(2)])
qed

lemma target_between:
  assumes "smin < d" "d < UpperThreshold smin smax"
  shows "CalculateLODFactorScaled c d smin smax =
     Clamp (RoundToIntF
        (Lerp (IntToFloat (MaxTessellationFactor (TessellationSettings c)))
           (IntToFloat (MinTessellationFactor (TessellationSettings c)))
           (SmoothstepF (FDiv (FSub d smin) (FSub (UpperThreshold smin smax) smin))))) 1 256"
  using assms
  by (simp add: CalculateLODFactorScaled_def Let_def UpperThreshold_def SmoothstepF_def not_le)

lemma CalculateLODFactorScaled_range:
  "1 \<le> CalculateLODFactorScaled c d a b \<and> CalculateLODFactorScaled c d a b \<le> 256"
  by (simp add: CalculateLODFactorScaled_def Let_def Clamp_def)



lemma InRange32_of_int: "\<bar>k\<bar> < 16777216 \<Longrightarrow> InRange32 (of_int k)"
proof -
  assume a: "\<bar>k\<bar> < 16777216"
  then have "\<bar>real_of_int k\<bar> \<le> 16777216" by linarith
  also have "(16777216::real) \<le> 2 ^ 126" by simp
  finally show ?thesis using a by (simp add: InRange32_def Float32_of_int)
qed

text \<open>
  Distance 10501.25 between the default thresholds 1000 and 50000, with the default
  factors 64 and 8. The quotient, the square, \<open>3 - 2t\<close>, the smoothstep and the product
  with \<open>8 - 64\<close> are all rounded; the product is a tie and goes to the even significand,
  which makes the interpolation exactly 58.5 and the factor 59.
\<close>

lemma single_precision_example:
  "CalculateLODFactorScaled DefaultComponent (42005 / 4) 1000 50000 = 59"
proof -
  have n: "FSub (42005 / 4) 1000 = 38005 / 4"
    using Float32_dyadic[of 38005 2] by (simp add: FSub_def)
  have m: "FSub 50000 1000 = 49000"
    using Float32_of_int[of 49000] by (simp add: FSub_def)
  have "RoundHalfEven (38005 / 4 / 49000 * 2 ^ 26) = 13012614"
    by (rule RoundHalfEven_near) simp
  then have t: "FDiv (38005 / 4) 49000 = 13012614 / 2 ^ 26"
    using Float32_round[of 26 "38005 / 4 / 49000" 13012614] by (simp add: FDiv_def)
  have "RoundHalfEven (13012614 / 2 ^ 26 * (13012614 / 2 ^ 26) * 2 ^ 28) = 10092743"
    by (rule RoundHalfEven_near) simp
  then have tt: "FMul (13012614 / 2 ^ 26) (13012614 / 2 ^ 26) = 10092743 / 2 ^ 28"
    using Float32_round[of 28 "13012614 / 2 ^ 26 * (13012614 / 2 ^ 26)" 10092743]
    by (simp add: FMul_def)
  have t2: "FMul 2 (13012614 / 2 ^ 26) = 13012614 / 2 ^ 25"
    using Float32_dyadic[of 13012614 25] by (simp add: FMul_def)
  have "RoundHalfEven ((3 - 13012614 / 2 ^ 25) * 2 ^ 22) = 10956335"
    by (rule RoundHalfEven_near) simp
  then have s3: "FSub 3 (13012614 / 2 ^ 25) = 10956335 / 2 ^ 22"
    using Float32_round[of 22 "3 - 13012614 / 2 ^ 25" 10956335] by (simp add: FSub_def)
  have "RoundHalfEven (10092743 / 2 ^ 28 * (10956335 / 2 ^ 22) * 2 ^ 27) = 13182100"
    by (rule RoundHalfEven_near) simp
  then have sm: "FMul (10092743 / 2 ^ 28) (10956335 / 2 ^ 22) = 13182100 / 2 ^ 27"
    using Float32_round[of 27 "10092743 / 2 ^ 28 * (10956335 / 2 ^ 22)" 13182100]
    by (simp add: FMul_def)
  have a: "IntToFloat 64 = 64" "IntToFloat 8 = 8"
    using IntToFloat_exact[of 64] IntToFloat_exact[of 8] by simp_all
  have ba: "FSub 8 64 = - 56"
    using Float32_of_int[of "- 56"] by (simp add: FSub_def)
  have "RoundHalfEven (13182100 / 2 ^ 27 * (- 56) * 2 ^ 21) = - 11534338"
    using RoundHalfEven_tie[of "13182100 / 2 ^ 27 * (- 56) * 2 ^ 21" "- 11534338"] by simp
  then have mu: "FMul (13182100 / 2 ^ 27) (- 56) = - 11534338 / 2 ^ 21"
    using Float32_round[of 21 "13182100 / 2 ^ 27 * (- 56)" "- 11534338"]
    by (simp add: FMul_def)
  have "RoundHalfEven ((64 + (- 11534338 / 2 ^ 21)) * 2 ^ 18) = 15335424"
    by (rule RoundHalfEven_near) simp
  then have le: "FAdd 64 (- 11534338 / 2 ^ 21) = 15335424 / 2 ^ 18"
    using Float32_round[of 18 "64 + (- 11534338 / 2 ^ 21)" 15335424] by (simp add: FAdd_def)
  have r: "RoundToIntF (15335424 / 2 ^ 18) = 59"
    using Float32_of_int[of 59] by (simp add: RoundToIntF_def FAdd_def FloatToInt_def)
  have "CalculateLODFactorScaled DefaultComponent (42005 / 4) 1000 50000 =
      Clamp (RoundToIntF (Lerp (IntToFloat 64) (IntToFloat 8)
        (SmoothstepF (FDiv (FSub (42005 / 4) 1000) (FSub 50000 1000))))) 1 256"
    using target_between[of 1000 "42005 / 4" 50000 DefaultComponent]
    by (simp add: UpperThreshold_def DefaultComponent_def DefaultSettings_def)
  also have "\<dots> = Clamp 59 1 256"
    by (simp only: SmoothstepF_def Lerp_def n m t tt t2 s3 sm a ba mu le r)
  finally show ?thesis by (simp add: Clamp_def)
qed

text \<open>Two evaluations between the thresholds in which no operation rounds.\<close>

lemma interpolation_at_quarter:
  "Clamp (RoundToIntF (Lerp (IntToFloat 64) (IntToFloat 8)
     (SmoothstepF (FDiv (FSub 1 0) (FSub 4 0))))) 1 256 = 55"
proof -
  have n: "FSub 1 0 = 1" "FSub 4 0 = 4"
    using Float32_of_int[of 1] Float32_of_int[of 4] by (simp_all add: FSub_def)
  have t: "FDiv 1 4 = 1 / 2 ^ 2"
    using Float32_dyadic[of 1 2] by (simp add: FDiv_def)
  have tt: "FMul (1 / 2 ^ 2) (1 / 2 ^ 2) = 1 / 2 ^ 4"
    using Float32_dyadic[of 1 4] by (simp add: FMul_def)
  have t2: "FMul 2 (1 / 2 ^ 2) = 1 / 2 ^ 1"
    using Float32_dyadic[of 1 1] by (simp add: FMul_def)
  have s3: "FSub 3 (1 / 2 ^ 1) = 5 / 2 ^ 1"
    using Float32_dyadic[of 5 1] by (simp add: FSub_def)
  have sm: "FMul (1 / 2 ^ 4) (5 / 2 ^ 1) = 5 / 2 ^ 5"
    using Float32_dyadic[of 5 5] by (simp add: FMul_def)
  have a: "IntToFloat 64 = 64" "IntToFloat 8 = 8"
    using IntToFloat_exact[of 64] IntToFloat_exact[of 8] by simp_all
  have ba: "FSub 8 64 = - 56"
    using Float32_of_int[of "- 56"] by (simp add: FSub_def)
  have mu: "FMul (5 / 2 ^ 5) (- 56) = - 35 / 2 ^ 2"
    using Float32_dyadic[of "- 35" 2] by (simp add: FMul_def)
  have le: "FAdd 64 (- 35 / 2 ^ 2) = 221 / 2 ^ 2"
    using Float32_dyadic[of 221 2] by (simp add: FAdd_def)
  have r: "RoundToIntF (221 / 2 ^ 2) = 55"
  proof -
    have e: "FAdd (221 / 2 ^ 2) (1 / 2) = 223 / 4"
      using Float32_dyadic[of 223 2] by (simp add: FAdd_def)
    show ?thesis unfolding RoundToIntF_def e by (simp add: FloatToInt_def)
  qed
  have "Clamp (RoundToIntF (Lerp (IntToFloat 64) (IntToFloat 8)
     (SmoothstepF (FDiv (FSub 1 0) (FSub 4 0))))) 1 256 = Clamp 55 1 256"
    by (simp only: SmoothstepF_def Lerp_def n t tt t2 s3 sm a ba mu le r)
  then show ?thesis by (simp add: Clamp_def)
qed

lemma interpolation_at_half:
  "Clamp (RoundToIntF (Lerp (IntToFloat 64) (IntToFloat 8)
     (SmoothstepF (FDiv (FSub 5500 5000) (FSub (FAdd 5000 1000) 5000))))) 1 256 = 36"
proof -
  have u: "FAdd 5000 1000 = 6000"
    using Float32_of_int[of 6000] by (simp add: FAdd_def)
  have n: "FSub 5500 5000 = 500" "FSub 6000 5000 = 1000"
    using Float32_of_int[of 500] Float32_of_int[of 1000] by (simp_all add: FSub_def)
  have t: "FDiv 500 1000 = 1 / 2 ^ 1"
    using Float32_dyadic[of 1 1] by (simp add: FDiv_def)
  have tt: "FMul (1 / 2 ^ 1) (1 / 2 ^ 1) = 1 / 2 ^ 2"
    using Float32_dyadic[of 1 2] by (simp add: FMul_def)
  have t2: "FMul 2 (1 / 2 ^ 1) = 1"
    using Float32_of_int[of 1] by (simp add: FMul_def)
  have s3: "FSub 3 1 = 2"
    using Float32_of_int[of 2] by (simp add: FSub_def)
  have sm: "FMul (1 / 2 ^ 2) 2 = 1 / 2 ^ 1"
    using Float32_dyadic[of 1 1] by (simp add: FMul_def)
  have a: "IntToFloat 64 = 64" "IntToFloat 8 = 8"
    using IntToFloat_exact[of 64] IntToFloat_exact[of 8] by simp_all
  have ba: "FSub 8 64 = - 56"
    using Float32_of_int[of "- 56"] by (simp add: FSub_def)
  have mu: "FMul (1 / 2 ^ 1) (- 56) = - 28"
    using Float32_of_int[of "- 28"] by (simp add: FMul_def)
  have le: "FAdd 64 (- 28) = 36"
    using Float32_of_int[of 36] by (simp add: FAdd_def)
  have r: "RoundToIntF 36 = 36"
    using RoundToIntF_of_int[of 36] by simp
  have "Clamp (RoundToIntF (Lerp (IntToFloat 64) (IntToFloat 8)
     (SmoothstepF (FDiv (FSub 5500 5000) (FSub (FAdd 5000 1000) 5000))))) 1 256 = Clamp 36 1 256"
    by (simp only: SmoothstepF_def Lerp_def u n t tt t2 s3 sm a ba mu le r)
  then show ?thesis by (simp add: Clamp_def)
qed

text \<open>
  Claim C5, as the code has it. The target factor of the continuous mode is computed in
  single precision and always lies in \<open>[1, 256]\<close>. For a distance and thresholds that are
  single-precision numbers of magnitude at most \<open>2\<^sup>1\<^sup>2\<^sup>6\<close>, and factors of magnitude at most
  \<open>2\<^sup>2\<^sup>2\<close> in the first two cases: up to the scaled minimum the target is the maximum
  factor clamped to \<open>[1, 256]\<close>; above the scaled minimum and from the upper threshold on
  it is the minimum factor clamped to \<open>[1, 256]\<close>, where the upper threshold is the scaled
  maximum, or the scaled minimum plus 1000 when the scaled minimum is not below the scaled
  maximum; strictly between the two it is the interpolation from the maximum to the
  minimum factor at the smoothstep \<open>t * t * (3 - 2 * t)\<close> of the normalised distance, every
  operation rounded to single precision, then rounded to an integer by \<open>floor (x + 0.5)\<close>
  and clamped to \<open>[1, 256]\<close>. With the thresholds 1000 and 50000 and the factors 8 and 64,
  distance 1000 gives 64, distance 50000 gives 8 and distance 10501.25 gives 59.
\<close>

theorem target_factor_in_single_precision:
  "1 \<le> CalculateLODFactorScaled c d smin smax \<and>
   CalculateLODFactorScaled c d smin smax \<le> 256 \<and>
   (InRange32 d \<and> InRange32 smin \<and> InRange32 smax \<longrightarrow>
      (\<bar>MaxTessellationFactor (TessellationSettings c)\<bar> \<le> 4194304 \<and> d \<le> smin \<longrightarrow>
         CalculateLODFactorScaled c d smin smax =
           Clamp (MaxTessellationFactor (TessellationSettings c)) 1 256) \<and>
      (\<bar>MaxTessellationFactor (TessellationSettings c)\<bar> \<le> 4194304 \<and>
       \<bar>MinTessellationFactor (TessellationSettings c)\<bar> \<le> 4194304 \<and>
       smin < d \<and> UpperThreshold smin smax \<le> d \<longrightarrow>
         CalculateLODFactorScaled c d smin smax =
           Clamp (MinTessellationFactor (TessellationSettings c)) 1 256) \<and>
      (smin < d \<and> d < UpperThreshold smin smax \<longrightarrow>
         CalculateLODFactorScaled c d smin smax =
           Clamp (RoundToIntF
                    (Lerp (IntToFloat (MaxTessellationFactor (TessellationSettings c)))
                       (IntToFloat (MinTessellationFactor (TessellationSettings c)))
                       (SmoothstepF
                          (FDiv (FSub d smin) (FSub (UpperThreshold smin smax) smin)))))
             1 256)) \<and>
   CalculateLODFactorScaled DefaultComponent 1000 1000 50000 = 64 \<and>
   CalculateLODFactorScaled DefaultComponent 50000 1000 50000 = 8 \<and>
   CalculateLODFactorScaled DefaultComponent (42005 / 4) 1000 50000 = 59"
proof -
  have a: "CalculateLODFactorScaled DefaultComponent 1000 1000 50000 = 64"
    using target_at_near[of DefaultComponent 1000 1000 50000]
    by (simp add: DefaultComponent_def DefaultSettings_def Clamp_def)
  have b: "CalculateLODFactorScaled DefaultComponent 50000 1000 50000 = 8"
    using target_at_far[of DefaultComponent 1000 50000 50000]
    by (simp add: DefaultComponent_def DefaultSettings_def Clamp_def UpperThreshold_def)
  from CalculateLODFactorScaled_range[of c d smin smax] target_at_near[of c d smin smax]
    target_at_far[of c smin d smax] target_between[of smin d smax c] a b
    single_precision_example
  show ?thesis by blast
qed

text \<open>
  The theorem on the default component: below the range (distance 500), beyond it
  (distance 60000), and inside the range 0 to 4 at distance 1, where the interpolation
  55.25 is rounded to 55.
\<close>

theorem target_factor_in_single_precision_witness:
  "InRange32 500 \<and> InRange32 1000 \<and> InRange32 50000 \<and> InRange32 60000 \<and>
   InRange32 0 \<and> InRange32 1 \<and> InRange32 4 \<and>
   CalculateLODFactorScaled DefaultComponent 500 1000 50000 = 64 \<and>
   CalculateLODFactorScaled DefaultComponent 60000 1000 50000 = 8 \<and>
   UpperThreshold 0 4 = 4 \<and>
   CalculateLODFactorScaled DefaultComponent 1 0 4 = 55"
proof -
  have i: "InRange32 500" "InRange32 1000" "InRange32 50000" "InRange32 60000"
    "InRange32 0" "InRange32 1" "InRange32 4"
    using InRange32_of_int[of 500] InRange32_of_int[of 1000] InRange32_of_int[of 50000]
      InRange32_of_int[of 60000] InRange32_of_int[of 0] InRange32_of_int[of 1]
      InRange32_of_int[of 4]
    by simp_all
  have f: "MaxTessellationFactor (TessellationSettings DefaultComponent) = 64"
    "MinTessellationFactor (TessellationSettings DefaultComponent) = 8"
    by (simp_all add: DefaultComponent_def DefaultSettings_def)
  have u: "UpperThreshold 1000 50000 = 50000" "UpperThreshold 0 4 = 4"
    by (simp_all add: UpperThreshold_def)
  have near: "CalculateLODFactorScaled DefaultComponent 500 1000 50000 = 64"
    using target_factor_in_single_precision[of DefaultComponent 500 1000 50000] i
    by (simp add: f Clamp_def)
  have far: "CalculateLODFactorScaled DefaultComponent 60000 1000 50000 = 8"
    using target_factor_in_single_precision[of DefaultComponent 60000 1000 50000] i
    by (simp add: f u Clamp_def)
  have "CalculateLODFactorScaled DefaultComponent 1 0 4 =
      Clamp (RoundToIntF (Lerp (IntToFloat 64) (IntToFloat 8)
        (SmoothstepF (FDiv (FSub 1 0) (FSub 4 0))))) 1 256"
    using target_factor_in_single_precision[of DefaultComponent 1 0 4] i
    by (simp add: f u)
  then have mid: "CalculateLODFactorScaled DefaultComponent 1 0 4 = 55"
    by (simp only: interpolation_at_quarter)
  from i near far u(2) mid show ?thesis by blast
qed

text \<open>
  Claim C5 as stated fails in four ways: a maximum factor of 512 is clamped to 256; with
  inverted thresholds 5000 and 1000 the distance 5500 lies inside the corrected range and
  gives 36, not the minimum factor; a fractional interpolation (55.25) is rounded; and at
  distance 10501.25 the single-precision evaluation gives 59 where the exact
  interpolation, 58.4999990, would round to 58.
\<close>

theorem target_factor_is_not_plain_lerp:
  "real_of_int (CalculateLODFactorScaled
      (DefaultComponent\<lparr>TessellationSettings := DefaultSettings\<lparr>MaxTessellationFactor := 512\<rparr>\<rparr>)
      0 1000 50000) \<noteq> SpecTargetLevel 512 8 (SpecInterpolationParameter 0 1000 50000) \<and>
   real_of_int (CalculateLODFactorScaled DefaultComponent 5500 5000 1000) \<noteq>
     SpecTargetLevel 64 8 (SpecInterpolationParameter 5500 5000 1000) \<and>
   real_of_int (CalculateLODFactorScaled DefaultComponent 1 0 4) \<noteq>
     SpecTargetLevel 64 8 (SpecInterpolationParameter 1 0 4) \<and>
   CalculateLODFactorScaled DefaultComponent (42005 / 4) 1000 50000 \<noteq>
     Clamp (RoundToInt (SpecTargetLevel 64 8 (SpecInterpolationParameter (42005 / 4) 1000 50000)))
       1 256"
proof -
  have a: "CalculateLODFactorScaled
      (DefaultComponent\<lparr>TessellationSettings := DefaultSettings\<lparr>MaxTessellationFactor := 512\<rparr>\<rparr>)
      0 1000 50000 = 256"
    using target_at_near[of "DefaultComponent\<lparr>TessellationSettings :=
        DefaultSettings\<lparr>MaxTessellationFactor := 512\<rparr>\<rparr>" 0 1000 50000]
    by (simp add: Clamp_def)
  have "CalculateLODFactorScaled DefaultComponent 5500 5000 1000 =
      Clamp (RoundToIntF (Lerp (IntToFloat 64) (IntToFloat 8)
        (SmoothstepF (FDiv (FSub 5500 5000) (FSub (FAdd 5000 1000) 5000))))) 1 256"
    using target_between[of 5000 5500 1000 DefaultComponent] Float32_of_int[of 6000]
    by (simp add: UpperThreshold_def FAdd_def DefaultComponent_def DefaultSettings_def)
  then have b: "CalculateLODFactorScaled DefaultComponent 5500 5000 1000 = 36"
    by (simp only: interpolation_at_half)
  have "CalculateLODFactorScaled DefaultComponent 1 0 4 =
      Clamp (RoundToIntF (Lerp (IntToFloat 64) (IntToFloat 8)
        (SmoothstepF (FDiv (FSub 1 0) (FSub 4 0))))) 1 256"
    using target_between[of 0 1 4 DefaultComponent]
    by (simp add: UpperThreshold_def DefaultComponent_def DefaultSettings_def)
  then have c: "CalculateLODFactorScaled DefaultComponent 1 0 4 = 55"
    by (simp only: interpolation_at_quarter)
  have "\<lfloor>SpecTargetLevel 64 8 (SpecInterpolationParameter (42005 / 4) 1000 50000) + 1 / 2\<rfloor> = 58"
    by (simp add: SpecTargetLevel_def SpecInterpolationParameter_def Let_def power2_eq_square
        power3_eq_cube)
  then have e: "Clamp (RoundToInt
      (SpecTargetLevel 64 8 (SpecInterpolationParameter (42005 / 4) 1000 50000))) 1 256 = 58"
    by (simp add: RoundToInt_def wrap32_def Clamp_def)
  have d: "CalculateLODFactorScaled DefaultComponent (42005 / 4) 1000 50000 \<noteq>
     Clamp (RoundToInt (SpecTargetLevel 64 8 (SpecInterpolationParameter (42005 / 4) 1000 50000)))
       1 256"
    unfolding e single_precision_example by simp
  have abc: "real_of_int (CalculateLODFactorScaled
      (DefaultComponent\<lparr>TessellationSettings := DefaultSettings\<lparr>MaxTessellationFactor := 512\<rparr>\<rparr>)
      0 1000 50000) \<noteq> SpecTargetLevel 512 8 (SpecInterpolationParameter 0 1000 50000) \<and>
   real_of_int (CalculateLODFactorScaled DefaultComponent 5500 5000 1000) \<noteq>
     SpecTargetLevel 64 8 (SpecInterpolationParameter 5500 5000 1000) \<and>
   real_of_int (CalculateLODFactorScaled DefaultComponent 1 0 4) \<noteq>
     SpecTargetLevel 64 8 (SpecInterpolationParameter 1 0 4)"
    unfolding a b c
    by (simp add: SpecTargetLevel_def SpecInterpolationParameter_def Let_def power2_eq_square
        power3_eq_cube)
  from abc d show ?thesis by blast
qed

text \<open>
  Claim C6. In a continuous-LOD evaluation step, if the rounded smoothed level differs
  from the last applied level by at most the hysteresis, the last applied level and the
  dirty flag are as before the step.
\<close>

theorem hysteresis_keeps_applied_level:
  assumes "\<bar>RoundToInt (CurrentLODLevel (UpdateDistanceBasedLOD env c)) - LastAppliedTessFactor c\<bar>
           \<le> LODHysteresis (TessellationSettings c)"
  shows "LastAppliedTessFactor (UpdateDistanceBasedLOD env c) = LastAppliedTessFactor c \<and>
         RenderStateDirty (UpdateDistanceBasedLOD env c) = RenderStateDirty c"
proof (cases "World env")
  case False
  then show ?thesis by (simp add: UpdateDistanceBasedLOD_def)
next
  case True
  show ?thesis
  proof (cases "FindCamera env")
    case None
    with True show ?thesis by (simp add: UpdateDistanceBasedLOD_def)
  next
    case (Some CameraPos)
    show ?thesis
      using assms True Some
      by (auto simp: UpdateDistanceBasedLOD_def Let_def MarkRenderStateDirty_def split: if_splits)
  qed
qed

text \<open>
  The theorem on the default component with the camera near and a frame of 10 ms: the
  smoothed level moves from 16 to 16.96, which rounds to 17, within the hysteresis of 2.
\<close>

theorem hysteresis_keeps_applied_level_witness:
  "\<bar>RoundToInt (CurrentLODLevel (UpdateDistanceBasedLOD (NearCameraFrame\<lparr>DeltaTime := 1 / 100\<rparr>)
        DefaultComponent)) - LastAppliedTessFactor DefaultComponent\<bar>
     \<le> LODHysteresis (TessellationSettings DefaultComponent) \<and>
   CurrentLODLevel (UpdateDistanceBasedLOD (NearCameraFrame\<lparr>DeltaTime := 1 / 100\<rparr>) DefaultComponent)
     = 424 / 25 \<and>
   LastAppliedTessFactor (UpdateDistanceBasedLOD (NearCameraFrame\<lparr>DeltaTime := 1 / 100\<rparr>)
        DefaultComponent) = 16 \<and>
   \<not> RenderStateDirty (UpdateDistanceBasedLOD (NearCameraFrame\<lparr>DeltaTime := 1 / 100\<rparr>)
        DefaultComponent)"
proof -
  have t: "CalculateLODFactorScaled (DefaultComponent\<lparr>LastCameraPosition := (0, 0, 500)\<rparr>) 500 1000 50000 = 64"
    using target_at_near[of "DefaultComponent\<lparr>LastCameraPosition := (0, 0, 500)\<rparr>" 500 1000 50000]
    by (simp add: DefaultComponent_def DefaultSettings_def Clamp_def)
  have r: "RoundToInt (424 / 25) = 17" by (simp add: RoundToInt_def wrap32_def)
  have cur: "CurrentLODLevel (UpdateDistanceBasedLOD (NearCameraFrame\<lparr>DeltaTime := 1 / 100\<rparr>)
      DefaultComponent) = 424 / 25"
    using t r
    by (simp add: UpdateDistanceBasedLOD_def Let_def NearCameraFrame_def FindCamera_def
        DefaultComponent_def DefaultSettings_def FInterpTo_def Clamp_def MarkRenderStateDirty_def)
  have h: "\<bar>RoundToInt (CurrentLODLevel (UpdateDistanceBasedLOD (NearCameraFrame\<lparr>DeltaTime := 1 / 100\<rparr>)
        DefaultComponent)) - LastAppliedTessFactor DefaultComponent\<bar>
     \<le> LODHysteresis (TessellationSettings DefaultComponent)"
    unfolding cur r by (simp add: DefaultComponent_def DefaultSettings_def)
  from hysteresis_keeps_applied_level[OF h] cur h show ?thesis
    by (simp add: DefaultComponent_def)
qed

section \<open>Repeated evaluation\<close>

lemma fold_idempotent_field:
  assumes step: "\<And>dt c. P (K c) \<Longrightarrow> L (U dt c) = g (K c) (L c)"
    and keep: "\<And>dt c. K (U dt c) = K c"
    and idem: "\<And>k x. g k (g k x) = g k x"
    and P: "P (K c)"
  shows "L (fold U dts (U dt c)) = L (U dt c)"
proof -
  have "P (K c') \<Longrightarrow> g (K c') (L c') = L c' \<Longrightarrow> L (fold U dts c') = L c'" for c'
  proof (induction dts arbitrary: c')
    case Nil
    then show ?case by simp
  next
    case (Cons d ds)
    have l: "L (U d c') = L c'" using step[of c' d] Cons.prems by simp
    then have "g (K (U d c')) (L (U d c')) = L (U d c')" "P (K (U d c'))"
      using Cons.prems keep[of d c'] by simp_all
    from Cons.IH[OF this(2,1)] l show ?case by simp
  qed
  moreover have "g (K (U dt c)) (L (U dt c)) = L (U dt c)" "P (K (U dt c))"
    using P by (simp_all add: step keep idem)
  ultimately show ?thesis by blast
qed

lemma UpdateDiscreteLOD_settings:
  "TessellationSettings (UpdateDiscreteLOD env c) = TessellationSettings c"
  by (simp add: UpdateDiscreteLOD_def Let_def MarkRenderStateDirty_def split: option.split)

lemma UpdateDiscreteLOD_last:
  "LastAppliedTessFactor (UpdateDiscreteLOD (WithDeltaTime env dt) c) =
   DiscreteCommit env (TessellationSettings c) (LastAppliedTessFactor c)"
  by (simp add: UpdateDiscreteLOD_def DiscreteCommit_def WithDeltaTime_def FindCamera_def Let_def
      MarkRenderStateDirty_def split: option.split)

lemma DiscreteCommit_idem: "DiscreteCommit env S (DiscreteCommit env S L) = DiscreteCommit env S L"
  by (simp add: DiscreteCommit_def split: option.split)

lemma CalculateLODFactorScaled_cong:
  "TessellationSettings c = TessellationSettings c' \<Longrightarrow>
   CalculateLODFactorScaled c d a b = CalculateLODFactorScaled c' d a b"
  by (simp add: CalculateLODFactorScaled_def)

lemma UpdateDistanceBasedLOD_settings:
  "TessellationSettings (UpdateDistanceBasedLOD env c) = TessellationSettings c"
  by (simp add: UpdateDistanceBasedLOD_def Let_def MarkRenderStateDirty_def split: option.split)

lemma UpdateDistanceBasedLOD_snap_last:
  assumes "LODTransitionSpeed (TessellationSettings c) \<le> 0"
  shows "LastAppliedTessFactor (UpdateDistanceBasedLOD (WithDeltaTime env dt) c) =
     SnapCommit env c0 (TessellationSettings c) (LastAppliedTessFactor c)"
proof -
  let ?S = "TessellationSettings c"
  let ?T = "CalculateLODFactorScaled (c0\<lparr>TessellationSettings := ?S\<rparr>) (Distance env)
                (MinTessellationDistance ?S * MaxScale env) (MaxTessellationDistance ?S * MaxScale env)"
  have e: "CalculateLODFactorScaled (c\<lparr>LastCameraPosition := p\<rparr>) d a b =
      CalculateLODFactorScaled (c0\<lparr>TessellationSettings := ?S\<rparr>) d a b" for p d a b
    by (rule CalculateLODFactorScaled_cong) simp
  have "1 \<le> ?T \<and> ?T \<le> 256" by (rule CalculateLODFactorScaled_range)
  then have "- 2147483648 \<le> ?T" "?T < 2147483648" by linarith+
  then have r: "RoundToInt (real_of_int ?T) = ?T" by (rule RoundToInt_of_int)
  have n: "\<not> 0 < LODTransitionSpeed ?S" using assms by simp
  show ?thesis
    using n r
    by (simp add: UpdateDistanceBasedLOD_def SnapCommit_def WithDeltaTime_def FindCamera_def Let_def
        MarkRenderStateDirty_def e split: option.split)
qed

lemma SnapCommit_idem: "SnapCommit env c0 S (SnapCommit env c0 S L) = SnapCommit env c0 S L"
  by (simp add: SnapCommit_def split: option.split)

text \<open>
  Claim C7, as the code has it. With an unchanged measurement and unchanged settings,
  once the evaluator has run, running it again any number of times leaves the last applied
  level as the first run left it: in discrete mode always, in continuous mode when the
  transition speed is not positive (the level snaps to the target).
\<close>

theorem repeated_evaluation_is_stable:
  "LastAppliedTessFactor (RepeatDiscreteLOD env dts (UpdateDiscreteLOD (WithDeltaTime env dt) c)) =
     LastAppliedTessFactor (UpdateDiscreteLOD (WithDeltaTime env dt) c) \<and>
   (LODTransitionSpeed (TessellationSettings c) \<le> 0 \<longrightarrow>
      LastAppliedTessFactor
        (RepeatDistanceBasedLOD env dts (UpdateDistanceBasedLOD (WithDeltaTime env dt) c)) =
      LastAppliedTessFactor (UpdateDistanceBasedLOD (WithDeltaTime env dt) c))"
proof (intro conjI impI)
  show "LastAppliedTessFactor (RepeatDiscreteLOD env dts (UpdateDiscreteLOD (WithDeltaTime env dt) c)) =
     LastAppliedTessFactor (UpdateDiscreteLOD (WithDeltaTime env dt) c)"
    unfolding RepeatDiscreteLOD_def
    by (rule fold_idempotent_field[where P = "\<lambda>k. True" and K = TessellationSettings
          and g = "DiscreteCommit env"])
      (simp_all add: UpdateDiscreteLOD_last UpdateDiscreteLOD_settings DiscreteCommit_idem)
next
  assume "LODTransitionSpeed (TessellationSettings c) \<le> 0"
  then show "LastAppliedTessFactor
        (RepeatDistanceBasedLOD env dts (UpdateDistanceBasedLOD (WithDeltaTime env dt) c)) =
      LastAppliedTessFactor (UpdateDistanceBasedLOD (WithDeltaTime env dt) c)"
    unfolding RepeatDistanceBasedLOD_def
    by (intro fold_idempotent_field[where P = "\<lambda>k. LODTransitionSpeed k \<le> 0"
          and K = TessellationSettings and g = "SnapCommit env c"])
      (simp_all add: UpdateDistanceBasedLOD_snap_last UpdateDistanceBasedLOD_settings SnapCommit_idem)
qed

lemma near_target:
  "TessellationSettings c = DefaultSettings\<lparr>LODTransitionSpeed := v\<rparr> \<Longrightarrow>
   CalculateLODFactorScaled c 500 1000 50000 = 64"
  using target_at_near[of c 500 1000 50000] by (simp add: DefaultSettings_def Clamp_def)

text \<open>
  The theorem on the component without smoothing and the camera near: the first evaluation
  commits 64, two more leave it there.
\<close>

theorem repeated_evaluation_is_stable_witness:
  "LODTransitionSpeed (TessellationSettings SnapComponent) \<le> 0 \<and>
   LastAppliedTessFactor SnapComponent = 16 \<and>
   LastAppliedTessFactor (UpdateDistanceBasedLOD (WithDeltaTime NearCameraFrame (1 / 60)) SnapComponent) = 64 \<and>
   LastAppliedTessFactor
     (RepeatDistanceBasedLOD NearCameraFrame [1 / 60, 1 / 30]
        (UpdateDistanceBasedLOD (WithDeltaTime NearCameraFrame (1 / 60)) SnapComponent)) = 64"
proof -
  have s: "LODTransitionSpeed (TessellationSettings SnapComponent) \<le> 0"
    by (simp add: SnapComponent_def)
  have r: "RoundToInt 64 = 64" by (simp add: RoundToInt_def wrap32_def)
  have f: "LastAppliedTessFactor
      (UpdateDistanceBasedLOD (WithDeltaTime NearCameraFrame (1 / 60)) SnapComponent) = 64"
    by (simp add: UpdateDistanceBasedLOD_def Let_def WithDeltaTime_def NearCameraFrame_def
        FindCamera_def SnapComponent_def DefaultComponent_def near_target[where v = 0]
        DefaultSettings_def MarkRenderStateDirty_def r)
  from repeated_evaluation_is_stable[of NearCameraFrame "[1 / 60, 1 / 30]" "1 / 60" SnapComponent] s f
  show ?thesis by (simp add: SnapComponent_def DefaultComponent_def)
qed

text \<open>
  Claim C7 as stated fails with smoothing (the default transition speed 2): with the
  camera near and unchanged, the first evaluation moves the last applied level from 16 to
  40 and the second one from 40 to 52.
\<close>

theorem smoothed_evaluation_keeps_moving:
  "LastAppliedTessFactor (UpdateDistanceBasedLOD (WithDeltaTime NearCameraFrame (1 / 4)) DefaultComponent)
     \<noteq> LastAppliedTessFactor DefaultComponent \<and>
   LastAppliedTessFactor
     (RepeatDistanceBasedLOD NearCameraFrame [1 / 4]
        (UpdateDistanceBasedLOD (WithDeltaTime NearCameraFrame (1 / 4)) DefaultComponent))
     \<noteq> LastAppliedTessFactor
         (UpdateDistanceBasedLOD (WithDeltaTime NearCameraFrame (1 / 4)) DefaultComponent)"
proof -
  have r: "RoundToInt 40 = 40" "RoundToInt 52 = 52" by (simp_all add: RoundToInt_def wrap32_def)
  have one: "UpdateDistanceBasedLOD (WithDeltaTime NearCameraFrame (1 / 4)) DefaultComponent =
      DefaultComponent\<lparr>LastCameraPosition := (0, 0, 500), CurrentLODLevel := 40,
        LastAppliedTessFactor := 40, RenderStateDirty := True\<rparr>"
    by (simp add: UpdateDistanceBasedLOD_def Let_def WithDeltaTime_def NearCameraFrame_def
        FindCamera_def DefaultComponent_def near_target[where v = 2] DefaultSettings_def
        MarkRenderStateDirty_def FInterpTo_def Clamp_def r)
  have two: "LastAppliedTessFactor (UpdateDistanceBasedLOD (WithDeltaTime NearCameraFrame (1 / 4))
      (DefaultComponent\<lparr>LastCameraPosition := (0, 0, 500), CurrentLODLevel := 40,
        LastAppliedTessFactor := 40, RenderStateDirty := True\<rparr>)) = 52"
    by (simp add: UpdateDistanceBasedLOD_def Let_def WithDeltaTime_def NearCameraFrame_def
        FindCamera_def DefaultComponent_def near_target[where v = 2] DefaultSettings_def
        MarkRenderStateDirty_def FInterpTo_def Clamp_def r)
  show ?thesis
    unfolding RepeatDistanceBasedLOD_def fold_simps id_apply one two
    by (simp add: DefaultComponent_def)
qed

section \<open>The base factor under LOD\<close>

lemma UpdatePatchBasedLOD_settings:
  "TessellationSettings (UpdatePatchBasedLOD env c) = TessellationSettings c"
  by (simp add: UpdatePatchBasedLOD_def Let_def SendRenderDynamicData_Concurrent_def
      split: option.split)

lemma TickComponent_settings:
  "TessellationSettings (TickComponent env c) = TessellationSettings c"
  by (cases "LODMode (TessellationSettings c)")
    (simp_all add: TickComponent_def UpdateDistanceBasedLOD_settings UpdateDiscreteLOD_settings
      UpdatePatchBasedLOD_settings UpdateDensityBasedLOD_def)

lemma RunTicks_settings:
  "TessellationSettings (RunTicks envs c) = TessellationSettings c"
  unfolding RunTicks_def
  by (induction envs arbitrary: c) (simp_all add: TickComponent_settings)

text \<open>
  Claim C9. No run of ticks, in any LOD mode, changes the tessellation settings, so the
  base tessellation factor stays as authored; the LOD result lives in
  \<open>LastAppliedTessFactor\<close>. \<open>CalculateGridResolution\<close> does not depend on that field when
  the LOD mode is \<open>Disabled\<close>, does not depend on the base factor otherwise, and changes
  neither.
\<close>

theorem lod_keeps_base_factor:
  "TessellationSettings (RunTicks envs c) = TessellationSettings c \<and>
   TessellationFactor (TessellationSettings (RunTicks envs c)) =
     TessellationFactor (TessellationSettings c) \<and>
   (LODMode (TessellationSettings c) = Disabled \<longrightarrow>
      fst (CalculateGridResolution (c\<lparr>LastAppliedTessFactor := a\<rparr>)) =
      fst (CalculateGridResolution c)) \<and>
   (LODMode (TessellationSettings c) \<noteq> Disabled \<longrightarrow>
      fst (CalculateGridResolution
             (c\<lparr>TessellationSettings := (TessellationSettings c)\<lparr>TessellationFactor := f\<rparr>\<rparr>)) =
      fst (CalculateGridResolution c)) \<and>
   TessellationSettings (snd (CalculateGridResolution c)) = TessellationSettings c \<and>
   LastAppliedTessFactor (snd (CalculateGridResolution c)) = LastAppliedTessFactor c"
proof -
  have keep: "TessellationSettings (RunTicks envs c) = TessellationSettings c"
    by (rule RunTicks_settings)
  then have factor: "TessellationFactor (TessellationSettings (RunTicks envs c)) =
      TessellationFactor (TessellationSettings c)"
    by simp
  have off: "fst (CalculateGridResolution (c\<lparr>LastAppliedTessFactor := a\<rparr>)) =
      fst (CalculateGridResolution c)" if "LODMode (TessellationSettings c) = Disabled"
    using that by (simp add: CalculateGridResolution_def Let_def)
  have on: "fst (CalculateGridResolution
             (c\<lparr>TessellationSettings := (TessellationSettings c)\<lparr>TessellationFactor := f\<rparr>\<rparr>)) =
      fst (CalculateGridResolution c)" if "LODMode (TessellationSettings c) \<noteq> Disabled"
    using that by (simp add: CalculateGridResolution_def Let_def)
  have pure: "TessellationSettings (snd (CalculateGridResolution c)) = TessellationSettings c"
    "LastAppliedTessFactor (snd (CalculateGridResolution c)) = LastAppliedTessFactor c"
    by (simp_all add: CalculateGridResolution_def Let_def)
  from keep factor off on pure show ?thesis by blast
qed

lemma far_target:
  "TessellationSettings c = DefaultSettings\<lparr>LODMode := DistanceBased\<rparr> \<Longrightarrow>
   CalculateLODFactorScaled c 60000 1000 50000 = 8"
  using target_at_far[of c 1000 60000 50000]
  by (simp add: DefaultSettings_def Clamp_def UpperThreshold_def)

text \<open>
  The theorem on the default component (LOD disabled) and on the continuous-mode component
  after a tick with the camera far: the applied level drops to 36, the base factor is
  still 16.
\<close>

theorem lod_keeps_base_factor_witness:
  "LODMode (TessellationSettings DefaultComponent) = Disabled \<and>
   fst (CalculateGridResolution (DefaultComponent\<lparr>LastAppliedTessFactor := 99\<rparr>)) = (64, 64) \<and>
   LODMode (TessellationSettings ContinuousComponent) \<noteq> Disabled \<and>
   fst (CalculateGridResolution
          (ContinuousComponent\<lparr>TessellationSettings :=
             (TessellationSettings ContinuousComponent)\<lparr>TessellationFactor := 99\<rparr>\<rparr>)) = (64, 64) \<and>
   LastAppliedTessFactor (RunTicks [FarCameraFrame] ContinuousComponent) = 36 \<and>
   TessellationFactor (TessellationSettings (RunTicks [FarCameraFrame] ContinuousComponent)) = 16"
proof -
  have g: "fst (CalculateGridResolution DefaultComponent) = (64, 64)"
    "fst (CalculateGridResolution ContinuousComponent) = (64, 64)"
    by (simp_all add: CalculateGridResolution_def Let_def DefaultComponent_def ContinuousComponent_def
        DefaultSettings_def wrap32_def Clamp_def DivideAndRoundUp_def idiv_def)
  have m: "LODMode (TessellationSettings DefaultComponent) = Disabled"
    "LODMode (TessellationSettings ContinuousComponent) \<noteq> Disabled"
    by (simp_all add: DefaultComponent_def ContinuousComponent_def DefaultSettings_def)
  have r: "RoundToInt 36 = 36" by (simp add: RoundToInt_def wrap32_def)
  have l: "LastAppliedTessFactor (RunTicks [FarCameraFrame] ContinuousComponent) = 36"
    by (simp add: RunTicks_def TickComponent_def UpdateDistanceBasedLOD_def Let_def
        FarCameraFrame_def FindCamera_def ContinuousComponent_def DefaultComponent_def far_target
        DefaultSettings_def MarkRenderStateDirty_def FInterpTo_def Clamp_def r)
  have f: "TessellationFactor (TessellationSettings ContinuousComponent) = 16"
    by (simp add: ContinuousComponent_def DefaultSettings_def)
  from lod_keeps_base_factor[of "[FarCameraFrame]" ContinuousComponent 99 99] lod_keeps_base_factor[of "[]" DefaultComponent 99 99]
    g m l f
  show ?thesis by simp
qed

end
